theory Spec2Isabelle
  imports Main "HOL-Library.Word" "HOL-Library.Monad_Syntax" "HOL-Library.Sublist"
begin

unbundle bit_operations_syntax

section \<open>TM1628 LED controller driver (drivers/auxdisplay/tm1628.c)\<close>

text \<open>
  The driver keeps a mirror of the chip's display memory (\<open>data\<close>), a text buffer, two
  wiring tables and a grid count in one \<open>struct tm1628\<close>, and talks to the chip through
  SPI transfers. The embedding below follows the C functions one by one.

  \<^item> C arrays are lists of their declared length; an access outside an array is
    undefined behaviour in C and is the value \<open>None\<close> of the model (\<open>array_load\<close>,
    \<open>array_store\<close>).
  \<^item> \<open>unsigned int\<close> is \<open>32 word\<close>, \<open>u8\<close> is \<open>8 word\<close>; \<open>int\<close> values that stay small
    are \<open>int\<close>.
  \<^item> A \<open>__le16\<close> cell is modelled by the 16-bit value it encodes; \<open>cpu_to_le16\<close> is then
    the truncation to 16 bits, the bitwise operations of the driver act on the value, and
    the bytes on the wire are low byte first (\<open>le16_bytes\<close>).
  \<^item> The SPI core, the device-property reader, the LED class and sysfs are outside
    the file. The calls that act on the device (the delay, the SPI transfers, the
    registrations) are recorded as \<open>event\<close>s in the device's log, and every return code
    is taken from the environment.
  \<^item> \<open>disp_lock\<close> is not modelled: each function runs alone.
\<close>

subsection \<open>Constants\<close>

type_synonym u8 = "8 word"
type_synonym u16 = "16 word"
type_synonym u32 = "32 word"

definition TM1628_CMD_DISPLAY_MODE :: u8 where "TM1628_CMD_DISPLAY_MODE = push_bit 6 0"
definition TM1628_DISPLAY_MODE_6_12 :: u8 where "TM1628_DISPLAY_MODE_6_12 = 0x02"
definition TM1628_CMD_DATA :: u8 where "TM1628_CMD_DATA = push_bit 6 1"
definition TM1628_DATA_WRITE_DATA :: u8 where "TM1628_DATA_WRITE_DATA = 0x00"
definition TM1628_CMD_DISPLAY_CTRL :: u8 where "TM1628_CMD_DISPLAY_CTRL = push_bit 6 2"
definition TM1628_DISPLAY_CTRL_DISPLAY_ON :: u8 where "TM1628_DISPLAY_CTRL_DISPLAY_ON = push_bit 3 1"
definition TM1628_CMD_SET_ADDRESS :: u8 where "TM1628_CMD_SET_ADDRESS = push_bit 6 3"
definition TM1628_BRIGHTNESS_MAX :: u8 where "TM1628_BRIGHTNESS_MAX = 7"

definition MAX_GRID_SIZE :: nat where "MAX_GRID_SIZE = 7"
definition MAX_SEGMENT_NUM :: nat where "MAX_SEGMENT_NUM = 16"

definition EINVAL :: int where "EINVAL = 22"
definition E2BIG :: int where "E2BIG = 7"
definition ENOMEM :: int where "ENOMEM = 12"

definition LED_OFF :: int where "LED_OFF = 0"
definition LED_ON :: int where "LED_ON = 1"

subsection \<open>Arrays\<close>

definition array_load :: "'a list \<Rightarrow> int \<Rightarrow> 'a option" where
  "array_load xs i = (if 0 \<le> i \<and> i < int (length xs) then Some (xs ! nat i) else None)"

definition array_store :: "'a list \<Rightarrow> int \<Rightarrow> 'a \<Rightarrow> 'a list option" where
  "array_store xs i v = (if 0 \<le> i \<and> i < int (length xs) then Some (xs[nat i := v]) else None)"

subsection \<open>The device and the driver state\<close>

text \<open>
  One buffer of an SPI transfer: its bytes, or \<open>None\<close> when the buffer handed to the SPI
  core does not lie inside the array it was taken from.
\<close>

type_synonym tx_buf = "u8 list option"

datatype event =
    Msleep nat
  | Spi_write "u8 list"
  | Spi_sync_transfer "tx_buf list"
  | Led_register u32 u32
  | Create_file

text \<open>
  \<open>replies\<close> are the return codes the SPI core will give to the coming transfers, in
  order; when the list is used up a transfer returns 0.
\<close>

record spi_device =
  log :: "event list"
  replies :: "int list"

record tm1628_led =
  led_grid :: u32
  led_seg :: u32

record tm1628 =
  spi :: spi_device
  data :: "u16 list"
  text_arr :: "char list"
  segment_mapping :: "u8 list"
  grid :: "u8 list"
  grid_size :: int

definition spi_submit :: "spi_device \<Rightarrow> event \<Rightarrow> int \<times> spi_device" where
  "spi_submit dev e =
     (case replies dev of
        [] \<Rightarrow> (0, dev\<lparr>log := log dev @ [e]\<rparr>)
      | r # rs \<Rightarrow> (r, dev\<lparr>log := log dev @ [e], replies := rs\<rparr>))"

definition spi_write :: "spi_device \<Rightarrow> u8 list \<Rightarrow> int \<times> spi_device" where
  "spi_write dev buf = spi_submit dev (Spi_write buf)"

definition spi_sync_transfer :: "spi_device \<Rightarrow> tx_buf list \<Rightarrow> int \<times> spi_device" where
  "spi_sync_transfer dev xfers = spi_submit dev (Spi_sync_transfer xfers)"

subsection \<open>Protocol commands\<close>

definition tm1628_set_display_mode :: "spi_device \<Rightarrow> u8 \<Rightarrow> int \<times> spi_device" where
  "tm1628_set_display_mode dev grid_mode =
     (let cmd = TM1628_CMD_DISPLAY_MODE OR grid_mode in spi_write dev [cmd])"

text \<open>
  \<open>offset * sizeof(__le16)\<close> is computed in \<open>size_t\<close> and the result is cut to the \<open>u8\<close>
  command byte.
\<close>

definition tm1628_set_address :: "spi_device \<Rightarrow> u8 \<Rightarrow> int \<times> spi_device" where
  "tm1628_set_address dev offset =
     (let cmd = (ucast ((ucast TM1628_CMD_SET_ADDRESS :: 64 word) OR (ucast offset * 2)) :: u8)
      in spi_write dev [cmd])"

definition le16_bytes :: "u16 \<Rightarrow> u8 list" where
  "le16_bytes w = [ucast w, ucast (drop_bit 8 w)]"

text \<open>
  The second transfer of \<open>tm1628_write_data\<close>: \<open>len\<close> cells of \<open>data\<close> from \<open>offset\<close> on.
\<close>

definition data_tx :: "u16 list \<Rightarrow> u32 \<Rightarrow> u32 \<Rightarrow> tx_buf" where
  "data_tx d offset len =
     (if unat offset + unat len \<le> length d
      then Some (concat (map le16_bytes (take (unat len) (drop (unat offset) d))))
      else None)"

text \<open>
  \<open>offset + len\<close> is an addition of two \<open>unsigned int\<close>: it wraps at \<open>2 ^ 32\<close>. The return
  code of \<open>tm1628_set_address\<close> is dropped.
\<close>

definition tm1628_write_data :: "tm1628 \<Rightarrow> u32 \<Rightarrow> u32 \<Rightarrow> int \<times> tm1628" where
  "tm1628_write_data s offset len =
     (let cmd = TM1628_CMD_DATA OR TM1628_DATA_WRITE_DATA;
          xfers = [Some [cmd], data_tx (data s) offset len]
      in if offset + len > of_nat MAX_GRID_SIZE then (- EINVAL, s)
         else let (_, dev1) = tm1628_set_address (spi s) (ucast offset);
                  (ret, dev2) = spi_sync_transfer dev1 xfers
              in (ret, s\<lparr>spi := dev2\<rparr>))"

definition tm1628_set_display_ctrl :: "spi_device \<Rightarrow> bool \<Rightarrow> int \<times> spi_device" where
  "tm1628_set_display_ctrl dev on =
     (let cmd = TM1628_CMD_DISPLAY_CTRL OR TM1628_BRIGHTNESS_MAX;
          cmd = (if on then cmd OR TM1628_DISPLAY_CTRL_DISPLAY_ON else cmd)
      in spi_write dev [cmd])"

subsection \<open>Text rendering\<close>

text \<open>
  \<open>strlen\<close> of a \<open>char\<close> array: the number of characters before the first NUL. An array
  without NUL makes \<open>strlen\<close> read past its end.
\<close>

definition NUL :: char where "NUL = CHR 0x00"

definition strlen :: "char list \<Rightarrow> nat option" where
  "strlen cs = (if NUL \<in> set cs then Some (length (takeWhile (\<lambda>c. c \<noteq> NUL) cs)) else None)"

text \<open>
  \<open>BIT(n)\<close> is \<open>1UL << n\<close>: defined for \<open>0 \<le> n < BITS_PER_LONG\<close> only.
\<close>

definition BITS_PER_LONG :: int where "BITS_PER_LONG = 64"

definition BIT :: "int \<Rightarrow> int option" where
  "BIT n = (if 0 \<le> n \<and> n < BITS_PER_LONG then Some (push_bit (nat n) 1) else None)"

definition cpu_to_le16 :: "int \<Rightarrow> u16" where
  "cpu_to_le16 v = word_of_int v"

text \<open>
  The inner loop of \<open>tm1628_show_text\<close>, from \<open>j\<close> on: every bit \<open>j < 7\<close> set in
  \<open>char7_raw\<close> sets bit \<open>segment_mapping[j] - 1\<close> of \<open>char7\<close>.
\<close>

function remap_loop :: "u8 list \<Rightarrow> int \<Rightarrow> int \<Rightarrow> int \<Rightarrow> int option" where
  "remap_loop sm char7_raw j char7 =
     (if j < 7 then
        (if bit char7_raw (nat j) then
           do { m \<leftarrow> array_load sm j;
                b \<leftarrow> BIT (uint m - 1);
                remap_loop sm char7_raw (j + 1) (char7 OR b) }
         else remap_loop sm char7_raw (j + 1) char7)
      else Some char7)"
  by pat_completeness auto
termination
  by (relation "measure (\<lambda>(sm, char7_raw, j, char7). nat (7 - j))") auto

text \<open>
  The outer loop of \<open>tm1628_show_text\<close>, from \<open>i\<close> on, threading the \<open>data\<close> array \<open>d\<close>.
  \<open>seg7\<close> stands for \<open>map_to_seg7(&map_seg7, c)\<close> of uapi/linux/map_to_7segment.h, which is
  not part of the file: the loop is modelled for any such function.
\<close>

function show_text_loop :: "(char \<Rightarrow> int) \<Rightarrow> tm1628 \<Rightarrow> int \<Rightarrow> int \<Rightarrow> u16 list \<Rightarrow> u16 list option" where
  "show_text_loop seg7 s msg_len i d =
     (if i < grid_size s then
        do { g \<leftarrow> array_load (grid s) i;
             let pos = uint g - 1;
             d' \<leftarrow> (if i < msg_len then
                      do { c \<leftarrow> array_load (text_arr s) i;
                           let char7_raw = seg7 c;
                           char7 \<leftarrow> remap_loop (segment_mapping s) char7_raw 0 0;
                           array_store d pos (cpu_to_le16 char7) }
                    else array_store d pos 0);
             show_text_loop seg7 s msg_len (i + 1) d' }
      else Some d)"
  by pat_completeness auto
termination
  by (relation "measure (\<lambda>(seg7, s, msg_len, i, d). nat (grid_size s - i))") auto

definition tm1628_show_text :: "(char \<Rightarrow> int) \<Rightarrow> tm1628 \<Rightarrow> (int \<times> tm1628) option" where
  "tm1628_show_text seg7 s =
     do { msg_len \<leftarrow> strlen (text_arr s);
          d \<leftarrow> show_text_loop seg7 s (int msg_len) 0 (data s);
          Some (tm1628_write_data (s\<lparr>data := d\<rparr>) 0 (word_of_int (grid_size s))) }"

text \<open>
  Modelled from the spec: \<open>map_to_seg7\<close> and the \<open>MAP_ASCII7SEG_ALPHANUM\<close> table of
  uapi/linux/map_to_7segment.h are missing from the sources. The spec's segment encoder
  returns the 7-bit pattern of a character of the font table and the blank pattern 0 for
  a character outside the table. The table itself is the parameter \<open>map_seg7\<close>.
\<close>

definition map_to_seg7 :: "(char \<rightharpoonup> int) \<Rightarrow> char \<Rightarrow> int" where
  "map_to_seg7 map_seg7 c = (case map_seg7 c of Some p \<Rightarrow> p | None \<Rightarrow> 0)"

subsection \<open>LED outputs\<close>

definition tm1628_led_set_brightness :: "tm1628 \<Rightarrow> tm1628_led \<Rightarrow> int \<Rightarrow> (int \<times> tm1628) option" where
  "tm1628_led_set_brightness s led brightness =
     (let offset = sint (led_grid led - 1) in
      do { b \<leftarrow> BIT (uint (led_seg led - 1));
           let bit = cpu_to_le16 b;
           w \<leftarrow> array_load (data s) offset;
           d \<leftarrow> array_store (data s) offset
                  (if brightness = LED_OFF then w AND NOT bit else w OR bit);
           Some (tm1628_write_data (s\<lparr>data := d\<rparr>) (word_of_int offset) 1) })"

definition tm1628_led_get_brightness :: "tm1628 \<Rightarrow> tm1628_led \<Rightarrow> int option" where
  "tm1628_led_get_brightness s led =
     (let offset = sint (led_grid led - 1) in
      do { b \<leftarrow> BIT (uint (led_seg led - 1));
           let bit = cpu_to_le16 b;
           w \<leftarrow> array_load (data s) offset;
           let on = (w AND bit \<noteq> 0);
           Some (if on then LED_ON else LED_OFF) })"

text \<open>
  \<open>tm1628_register_led\<close> fills in the LED and hands it to the LED class, whose return code
  \<open>r\<close> comes from the environment.
\<close>

definition tm1628_register_led :: "spi_device \<Rightarrow> int \<Rightarrow> u32 \<Rightarrow> u32 \<Rightarrow> int \<times> tm1628_led \<times> spi_device" where
  "tm1628_register_led dev r g sg =
     (r, \<lparr>led_grid = g, led_seg = sg\<rparr>, dev\<lparr>log := log dev @ [Led_register g sg]\<rparr>)"

subsection \<open>The text attribute\<close>

text \<open>
  The copy loop of \<open>display_text_store\<close>, from \<open>i\<close> on; it returns the final \<open>i\<close> and the
  array. \<open>isprint\<close> of linux/ctype.h is not part of the file and is a parameter.
  \<open>count\<close> is a \<open>size_t\<close>; the \<open>int\<close> it is compared with is converted to \<open>size_t\<close>.
\<close>

definition size_t_of_int :: "int \<Rightarrow> nat" where
  "size_t_of_int x = nat (x mod 2 ^ 64)"

function text_copy_loop :: "(char \<Rightarrow> bool) \<Rightarrow> char list \<Rightarrow> nat \<Rightarrow> int \<Rightarrow> char list \<Rightarrow> (int \<times> char list) option" where
  "text_copy_loop isprint buf count i t =
     (if size_t_of_int i < count then
        do { c \<leftarrow> array_load buf i;
             if isprint c then
               do { t' \<leftarrow> array_store t i c;
                    text_copy_loop isprint buf count (i + 1) t' }
             else Some (i, t) }
      else Some (i, t))"
  by pat_completeness auto
termination
proof (relation "measure (\<lambda>(isprint, buf, count, i, t). nat (int (length buf) - i))")
  show "wf (measure (\<lambda>(isprint, buf, count, i, t). nat (int (length buf) - i)))"
    by simp
next
  fix isprint :: "char \<Rightarrow> bool" and buf :: "char list" and count :: nat and i :: int
    and t t' :: "char list" and c :: char
  assume "array_load buf i = Some c"
  then have "0 \<le> i \<and> i < int (length buf)"
    by (simp add: array_load_def split: if_splits)
  then show "((isprint, buf, count, i + 1, t'), (isprint, buf, count, i, t))
      \<in> measure (\<lambda>(isprint, buf, count, i, t). nat (int (length buf) - i))"
    by simp
qed

definition display_text_store :: "(char \<Rightarrow> int) \<Rightarrow> (char \<Rightarrow> bool) \<Rightarrow> tm1628 \<Rightarrow> char list \<Rightarrow> nat \<Rightarrow> (int \<times> tm1628) option" where
  "display_text_store seg7 isprint s buf count =
     (if count > size_t_of_int (grid_size s + 1) then Some (- E2BIG, s)
      else
        do { (i, t) \<leftarrow> text_copy_loop isprint buf count 0 (text_arr s);
             t' \<leftarrow> array_store t i NUL;
             (ret, s') \<leftarrow> tm1628_show_text seg7 (s\<lparr>text_arr := t'\<rparr>);
             if ret < 0 then Some (ret, s') else Some (int count, s') })"

text \<open>\<open>display_text_show\<close> prints the text up to its NUL.\<close>

definition display_text_show :: "tm1628 \<Rightarrow> char list option" where
  "display_text_show s =
     do { n \<leftarrow> strlen (text_arr s); Some (take n (text_arr s) @ [CHR 0x0A]) }"

subsection \<open>Attach\<close>

text \<open>
  What the platform gives to \<open>tm1628_spi_probe\<close>: whether the allocation succeeds,
  whether the LED class is reachable, the child nodes with the result of reading their
  \<open>reg\<close> property and of registering their LED, the result of counting and reading the
  \<open>grid\<close> property, of reading \<open>segment-mapping\<close>, and of creating the attribute file.
\<close>

record fwnode =
  reg_ret :: int
  reg0 :: u32
  reg1 :: u32
  led_ret :: int

record platform =
  alloc_ok :: bool
  leds_class :: bool
  children :: "fwnode list"
  grid_count :: int
  grid_read :: "int \<times> u8 list"
  segment_read :: "int \<times> u8 list"
  create_file_ret :: int

text \<open>
  Modelled from the spec: \<open>device_property_read_u8_array\<close> is missing from the sources.
  The configuration source supplies the table: when the call succeeds the first \<open>n\<close>
  cells of the array hold the values supplied, and a negative return code is a failure.
\<close>

definition device_property_read_u8_array :: "int \<times> u8 list \<Rightarrow> u8 list \<Rightarrow> nat \<Rightarrow> int \<times> u8 list" where
  "device_property_read_u8_array prop arr n =
     (let (ret, vals) = prop
      in if ret < 0 then (ret, arr)
         else (ret, take n vals @ drop (length (take n vals)) arr))"

text \<open>The loop over the child nodes, threading the device log and the LEDs registered.\<close>

fun probe_leds :: "spi_device \<Rightarrow> fwnode list \<Rightarrow> tm1628_led list \<Rightarrow> spi_device \<times> tm1628_led list" where
  "probe_leds dev [] leds = (dev, leds)"
| "probe_leds dev (child # rest) leds =
     (if reg_ret child \<noteq> 0 then probe_leds dev rest leds
      else if reg0 child = 0 \<or> reg0 child > of_nat MAX_GRID_SIZE then probe_leds dev rest leds
      else if reg1 child = 0 \<or> reg1 child > of_nat MAX_SEGMENT_NUM then probe_leds dev rest leds
      else let (ret, led, dev') = tm1628_register_led dev (led_ret child) (reg0 child) (reg1 child)
           in if ret \<noteq> 0 then probe_leds dev' rest leds
              else probe_leds dev' rest (leds @ [led]))"

text \<open>
  The two validation loops have one shape: from \<open>i\<close> on, is some cell below \<open>n\<close> outside
  \<open>[1, hi]\<close>?
\<close>

function table_out_of_range :: "u8 list \<Rightarrow> int \<Rightarrow> int \<Rightarrow> int \<Rightarrow> bool option" where
  "table_out_of_range tbl n hi i =
     (if i < n then
        do { v \<leftarrow> array_load tbl i;
             if uint v < 1 \<or> uint v > hi then Some True
             else table_out_of_range tbl n hi (i + 1) }
      else Some False)"
  by pat_completeness auto
termination
  by (relation "measure (\<lambda>(tbl, n, hi, i). nat (n - i))") auto

definition log_event :: "event \<Rightarrow> tm1628 \<Rightarrow> tm1628" where
  "log_event e s = s\<lparr>spi := (spi s)\<lparr>log := log (spi s) @ [e]\<rparr>\<rparr>"

text \<open>
  The result of \<open>tm1628_spi_probe\<close> is the return code and, unless the allocation
  failed, the controller state and the registered LEDs at the moment it returns. \<open>None\<close>
  as a whole is an access outside an array. The function is modelled in two parts: the
  code from the label \<open>no_leds\<close> on, which reads and checks the two tables and creates the
  attribute file, and the code before it.
\<close>

definition probe_no_leds :: "platform \<Rightarrow> tm1628 \<Rightarrow> tm1628_led list \<Rightarrow> (int \<times> (tm1628 \<times> tm1628_led list) option) option" where
  "probe_no_leds pf s leds =
     (let ret = grid_count pf
      in if ret < 1 \<or> ret > int MAX_GRID_SIZE then Some (- EINVAL, Some (s, leds))
         else
           let s = s\<lparr>grid_size := ret\<rparr>;
               (ret, g) = device_property_read_u8_array (grid_read pf) (grid s)
                            (nat (grid_size s));
               s = s\<lparr>grid := g\<rparr>
           in if ret < 0 then Some (ret, Some (s, leds))
              else
                do { bad \<leftarrow> table_out_of_range (grid s) (grid_size s) (grid_size s) 0;
                     if bad then Some (- EINVAL, Some (s, leds))
                     else
                       let (ret, sm) = device_property_read_u8_array (segment_read pf)
                                         (segment_mapping s) 7;
                           s = s\<lparr>segment_mapping := sm\<rparr>
                       in if ret < 0 then Some (ret, Some (s, leds))
                          else
                            do { bad \<leftarrow> table_out_of_range (segment_mapping s) 7
                                         (int MAX_SEGMENT_NUM) 0;
                                 if bad then Some (- EINVAL, Some (s, leds))
                                 else
                                   let s = log_event Create_file s;
                                       ret = create_file_ret pf
                                   in if ret \<noteq> 0 then Some (ret, Some (s, leds))
                                      else Some (0, Some (s, leds)) } })"

definition tm1628_spi_probe :: "platform \<Rightarrow> spi_device \<Rightarrow> (int \<times> (tm1628 \<times> tm1628_led list) option) option" where
  "tm1628_spi_probe pf dev =
     (if \<not> alloc_ok pf then Some (- ENOMEM, None)
      else
        let s = \<lparr>spi = dev, data = replicate MAX_GRID_SIZE 0,
                 text_arr = replicate (MAX_GRID_SIZE + 1) NUL,
                 segment_mapping = replicate 7 0, grid = replicate MAX_GRID_SIZE 0,
                 grid_size = 0\<rparr>;
            s = log_event (Msleep 200) s;
            (ret, s) = tm1628_write_data s 0 (of_nat MAX_GRID_SIZE)
        in if ret \<noteq> 0 then Some (ret, Some (s, []))
           else
             let (_, dev1) = tm1628_set_display_mode (spi s) TM1628_DISPLAY_MODE_6_12;
                 (_, dev2) = tm1628_set_display_ctrl dev1 True;
                 (dev3, leds) = (if leds_class pf then probe_leds dev2 (children pf) []
                                 else (dev2, []))
             in probe_no_leds pf (s\<lparr>spi := dev3\<rparr>) leds)"

text \<open>\<open>tm1628_spi_remove\<close> and \<open>tm1628_spi_shutdown\<close> switch the display off.\<close>

definition tm1628_spi_shutdown :: "spi_device \<Rightarrow> spi_device" where
  "tm1628_spi_shutdown dev = snd (tm1628_set_display_ctrl dev False)"

subsection \<open>States the driver works on\<close>

text \<open>
  The arrays have their declared lengths, and the tables and the grid count passed the
  checks of \<open>tm1628_spi_probe\<close>.
\<close>

definition in_range :: "int \<Rightarrow> u8 \<Rightarrow> bool" where
  "in_range hi v = (1 \<le> uint v \<and> uint v \<le> hi)"

definition tm1628_configured :: "tm1628 \<Rightarrow> bool" where
  "tm1628_configured s =
     (length (data s) = MAX_GRID_SIZE \<and> length (text_arr s) = MAX_GRID_SIZE + 1 \<and>
      length (grid s) = MAX_GRID_SIZE \<and> length (segment_mapping s) = 7 \<and>
      1 \<le> grid_size s \<and> grid_size s \<le> int MAX_GRID_SIZE \<and>
      list_all (in_range (grid_size s)) (take (nat (grid_size s)) (grid s)) \<and>
      list_all (in_range (int MAX_SEGMENT_NUM)) (segment_mapping s))"

text \<open>An LED that \<open>tm1628_spi_probe\<close> registers has passed its two range checks.\<close>

definition led_configured :: "tm1628_led \<Rightarrow> bool" where
  "led_configured led =
     (led_grid led \<noteq> 0 \<and> led_grid led \<le> of_nat MAX_GRID_SIZE \<and>
      led_seg led \<noteq> 0 \<and> led_seg led \<le> of_nat MAX_SEGMENT_NUM)"

declare remap_loop.simps [simp del]
declare show_text_loop.simps [simp del]
declare text_copy_loop.simps [simp del]
declare table_out_of_range.simps [simp del]

subsection \<open>The spec's text renderer\<close>

text \<open>
  The segment remapper in the spec's words: for each logical bit \<open>j\<close> set in the pattern,
  bit \<open>segment_table[j] - 1\<close> of the word is set; all other bits are 0.
\<close>

definition remap_spec :: "u8 list \<Rightarrow> int \<Rightarrow> u16" where
  "remap_spec segment_table p =
     horner_sum of_bool 2
       (map (\<lambda>k. \<exists>j\<in>{0..<7}. bit p j \<and> uint (segment_table ! j) - 1 = int k) [0..<16])"

text \<open>The grid router: \<open>physical_offset(i) = grid_table[i] - 1\<close>.\<close>

definition physical_offset :: "tm1628 \<Rightarrow> nat \<Rightarrow> nat" where
  "physical_offset s i = nat (uint (grid s ! i) - 1)"

text \<open>
  The word of logical index \<open>i\<close> for a text of length \<open>n\<close>: the remapped pattern of
  character \<open>i\<close> within the text, blank beyond it.
\<close>

definition text_cell :: "(char \<Rightarrow> int) \<Rightarrow> tm1628 \<Rightarrow> nat \<Rightarrow> nat \<Rightarrow> u16" where
  "text_cell seg7 s n i =
     (if i < n then remap_spec (segment_mapping s) (seg7 (text_arr s ! i)) else 0)"

text \<open>
  One pass of the renderer over the buffer: the stores of the logical indices
  \<open>0, \<dots>, grid_size - 1\<close>, in this order.
\<close>

definition render_spec :: "(char \<Rightarrow> int) \<Rightarrow> tm1628 \<Rightarrow> nat \<Rightarrow> u16 list" where
  "render_spec seg7 s n =
     fold (\<lambda>i d. d[physical_offset s i := text_cell seg7 s n i]) [0..<nat (grid_size s)] (data s)"

subsection \<open>The steps of attach\<close>

text \<open>
  A child node whose \<open>reg\<close> property was read and whose coordinates are in range: the
  ones \<open>tm1628_spi_probe\<close> tries to register an LED for, each giving one \<open>Led_register\<close>
  event.
\<close>

definition child_in_range :: "fwnode \<Rightarrow> bool" where
  "child_in_range c =
     (reg_ret c = 0 \<and> reg0 c \<noteq> 0 \<and> reg0 c \<le> of_nat MAX_GRID_SIZE \<and>
      reg1 c \<noteq> 0 \<and> reg1 c \<le> of_nat MAX_SEGMENT_NUM)"

definition led_events :: "fwnode list \<Rightarrow> event list" where
  "led_events cs = map (\<lambda>c. Led_register (reg0 c) (reg1 c)) (filter child_in_range cs)"

definition registered_leds :: "fwnode list \<Rightarrow> tm1628_led list" where
  "registered_leds cs =
     map (\<lambda>c. \<lparr>led_grid = reg0 c, led_seg = reg1 c\<rparr>)
       (filter (\<lambda>c. child_in_range c \<and> led_ret c = 0) cs)"

text \<open>
  The configuration as the spec wants it: a grid count in \<open>[1, MAX_GRID_SIZE]\<close>, that many
  grid entries in \<open>[1, grid count]\<close>, and seven segment entries in
  \<open>[1, MAX_SEGMENT_NUM]\<close>.
\<close>

definition tables_in_range :: "platform \<Rightarrow> bool" where
  "tables_in_range pf =
     (1 \<le> grid_count pf \<and> grid_count pf \<le> int MAX_GRID_SIZE \<and>
      nat (grid_count pf) \<le> length (snd (grid_read pf)) \<and>
      list_all (in_range (grid_count pf)) (take (nat (grid_count pf)) (snd (grid_read pf))) \<and>
      7 \<le> length (snd (segment_read pf)) \<and>
      list_all (in_range (int MAX_SEGMENT_NUM)) (take 7 (snd (segment_read pf))))"

text \<open>The events \<open>tm1628_spi_probe\<close> added to the log of the device it was given.\<close>

definition new_events :: "spi_device \<Rightarrow> (tm1628 \<times> tm1628_led list) option \<Rightarrow> event list" where
  "new_events dev st =
     (case st of None \<Rightarrow> [] | Some (s, leds) \<Rightarrow> drop (length (log dev)) (log (spi s)))"

text \<open>The events of a complete attach, in order.\<close>

definition attach_events :: "platform \<Rightarrow> event list" where
  "attach_events pf =
     [Msleep 200,
      Spi_write [TM1628_CMD_SET_ADDRESS],
      Spi_sync_transfer [Some [TM1628_CMD_DATA OR TM1628_DATA_WRITE_DATA],
                         Some (replicate (2 * MAX_GRID_SIZE) 0)],
      Spi_write [TM1628_CMD_DISPLAY_MODE OR TM1628_DISPLAY_MODE_6_12],
      Spi_write [(TM1628_CMD_DISPLAY_CTRL OR TM1628_BRIGHTNESS_MAX) OR
                 TM1628_DISPLAY_CTRL_DISPLAY_ON]]
     @ (if leds_class pf then led_events (children pf) else [])
     @ [Create_file]"

text \<open>
  The fatal steps of attach and what makes each fail. \<open>clear_ret\<close> is the return code the
  SPI core gives to the data transfer of the clearing write, the second transfer of
  attach; the three range conditions are the parts of \<open>tables_in_range\<close>.
\<close>

definition clear_ret :: "spi_device \<Rightarrow> int" where
  "clear_ret dev = (case tl (replies dev) of [] \<Rightarrow> 0 | r # _ \<Rightarrow> r)"

definition grid_count_in_range :: "platform \<Rightarrow> bool" where
  "grid_count_in_range pf = (1 \<le> grid_count pf \<and> grid_count pf \<le> int MAX_GRID_SIZE)"

definition grid_table_in_range :: "platform \<Rightarrow> bool" where
  "grid_table_in_range pf =
     (nat (grid_count pf) \<le> length (snd (grid_read pf)) \<and>
      list_all (in_range (grid_count pf)) (take (nat (grid_count pf)) (snd (grid_read pf))))"

definition segment_table_in_range :: "platform \<Rightarrow> bool" where
  "segment_table_in_range pf =
     (7 \<le> length (snd (segment_read pf)) \<and>
      list_all (in_range (int MAX_SEGMENT_NUM)) (take 7 (snd (segment_read pf))))"

text \<open>
  The order of attach, step by step, stopping at the first fatal error. The return code
  is that of the first step that fails: the allocation, the clearing write, the grid
  count, reading the grid table, its entries, reading the segment table, its entries,
  creating the text attribute.
\<close>

definition attach_ret :: "platform \<Rightarrow> spi_device \<Rightarrow> int" where
  "attach_ret pf dev =
     (if \<not> alloc_ok pf then - ENOMEM
      else if clear_ret dev \<noteq> 0 then clear_ret dev
      else if \<not> grid_count_in_range pf then - EINVAL
      else if fst (grid_read pf) < 0 then fst (grid_read pf)
      else if \<not> grid_table_in_range pf then - EINVAL
      else if fst (segment_read pf) < 0 then fst (segment_read pf)
      else if \<not> segment_table_in_range pf then - EINVAL
      else create_file_ret pf)"

text \<open>
  The events up to that point: nothing when the allocation fails; the settle delay and
  the clearing write; when that succeeded, mode selection, display enable and one LED
  registration for every child node with coordinates in range, whatever the tables
  hold; and the creation of the text attribute when counting, reading and checking both
  tables succeeded.
\<close>

definition attach_steps :: "platform \<Rightarrow> spi_device \<Rightarrow> event list" where
  "attach_steps pf dev =
     (if \<not> alloc_ok pf then []
      else
        [Msleep 200,
         Spi_write [TM1628_CMD_SET_ADDRESS],
         Spi_sync_transfer [Some [TM1628_CMD_DATA OR TM1628_DATA_WRITE_DATA],
                            Some (replicate (2 * MAX_GRID_SIZE) 0)]] @
        (if clear_ret dev \<noteq> 0 then []
         else
           [Spi_write [TM1628_CMD_DISPLAY_MODE OR TM1628_DISPLAY_MODE_6_12],
            Spi_write [(TM1628_CMD_DISPLAY_CTRL OR TM1628_BRIGHTNESS_MAX) OR
                       TM1628_DISPLAY_CTRL_DISPLAY_ON]] @
           (if leds_class pf then led_events (children pf) else []) @
           (if grid_count_in_range pf \<and> 0 \<le> fst (grid_read pf) \<and> grid_table_in_range pf \<and>
               0 \<le> fst (segment_read pf) \<and> segment_table_in_range pf
            then [Create_file] else [])))"

subsection \<open>Sample inputs\<close>

text \<open>
  A controller with four digits wired straight through, whose SPI core will fail the next
  transfer with \<open>-EIO\<close> and accept the one after it.
\<close>

definition s_demo :: tm1628 where
  "s_demo = \<lparr>spi = \<lparr>log = [], replies = [-5, 0]\<rparr>, data = [1, 2, 3, 4, 5, 6, 7],
     text_arr = [NUL, NUL, NUL, NUL, NUL, NUL, NUL, NUL], segment_mapping = [1, 2, 3, 4, 5, 6, 7],
     grid = [1, 2, 3, 4, 0, 0, 0], grid_size = 4\<rparr>"

text \<open>Two LEDs in the buffer word of grid 2, on segments 3 and 1.\<close>

definition led_2_3 :: tm1628_led where
  "led_2_3 = \<lparr>led_grid = 2, led_seg = 3\<rparr>"

definition led_2_1 :: tm1628_led where
  "led_2_1 = \<lparr>led_grid = 2, led_seg = 1\<rparr>"

text \<open>
  A font with the patterns of four characters, and the controller above with the text
  \<open>12AB\<close> stored.
\<close>

definition font_demo :: "char \<rightharpoonup> int" where
  "font_demo = [CHR ''1'' \<mapsto> 0x06, CHR ''2'' \<mapsto> 0x5B, CHR ''A'' \<mapsto> 0x77, CHR ''B'' \<mapsto> 0x7C]"

definition s_12AB :: tm1628 where
  "s_12AB = s_demo\<lparr>text_arr := ''12AB'' @ [NUL, NUL, NUL, NUL]\<rparr>"

text \<open>
  An instance of the parameter \<open>isprint\<close> to run the model with: the printable ASCII
  characters, space to tilde.
\<close>

definition isprint_ascii :: "char \<Rightarrow> bool" where
  "isprint_ascii c = (0x20 \<le> (of_char c :: nat) \<and> (of_char c :: nat) \<le> 0x7E)"

text \<open>
  The sample controller with the text \<open>1?\<close>, whose second character is not in the font;
  a controller with two digits both wired to grid 1, with LED bits set in the word of
  grid 2; and a controller with seven digits.
\<close>

definition s_1q :: tm1628 where
  "s_1q = s_demo\<lparr>text_arr := ''1?'' @ [NUL, NUL, NUL, NUL, NUL, NUL]\<rparr>"

definition s_alias :: tm1628 where
  "s_alias = \<lparr>spi = \<lparr>log = [], replies = []\<rparr>, data = [0, 5, 0, 0, 0, 0, 0],
     text_arr = [NUL, NUL, NUL, NUL, NUL, NUL, NUL, NUL], segment_mapping = [1, 2, 3, 4, 5, 6, 7],
     grid = [1, 1, 0, 0, 0, 0, 0], grid_size = 2\<rparr>"

definition s_seven :: tm1628 where
  "s_seven = \<lparr>spi = \<lparr>log = [], replies = []\<rparr>, data = [0, 0, 0, 0, 0, 0, 0],
     text_arr = [NUL, NUL, NUL, NUL, NUL, NUL, NUL, NUL], segment_mapping = [1, 2, 3, 4, 5, 6, 7],
     grid = [1, 2, 3, 4, 5, 6, 7], grid_size = 7\<rparr>"

text \<open>
  A platform with two child nodes, the second with a grid out of range, and tables for
  four digits; the same with a grid entry 5 among four digits; and the same with an
  empty \<open>grid\<close> property. A device with an empty log.
\<close>

definition pf_demo :: platform where
  "pf_demo = \<lparr>alloc_ok = True, leds_class = True,
     children = [\<lparr>reg_ret = 0, reg0 = 2, reg1 = 3, led_ret = 0\<rparr>,
                 \<lparr>reg_ret = 0, reg0 = 9, reg1 = 1, led_ret = 0\<rparr>],
     grid_count = 4, grid_read = (0, [1, 2, 3, 4]),
     segment_read = (0, [1, 2, 3, 4, 5, 6, 7]), create_file_ret = 0\<rparr>"

definition pf_bad_entry :: platform where
  "pf_bad_entry = pf_demo\<lparr>grid_read := (0, [1, 2, 5, 4])\<rparr>"

definition pf_no_grid :: platform where
  "pf_no_grid = pf_demo\<lparr>grid_count := 0, grid_read := (- 22, [])\<rparr>"

definition dev_demo :: spi_device where
  "dev_demo = \<lparr>log = [], replies = []\<rparr>"

section \<open>Properties\<close>

subsection \<open>Writing display memory\<close>

lemma ucast_double:
  fixes off :: u8
  shows "(ucast (ucast off * 2 :: 64 word) :: u8) = off * 2"
  by transfer (simp add: take_bit_eq_mod mod_mult_left_eq)

lemma ucast_back:
  fixes c :: u8
  shows "(ucast (ucast c :: 64 word) :: u8) = c"
  by transfer simp

lemma address_cmd:
  fixes c off :: u8
  shows "(ucast ((ucast c :: 64 word) OR (ucast off * 2)) :: u8) = c OR (off * 2)"
  by (simp add: unsigned_or_eq ucast_double ucast_back)

lemma small_sum_no_wrap:
  fixes offset len :: u32
  assumes "unat offset + unat len \<le> MAX_GRID_SIZE"
  shows "\<not> offset + len > of_nat MAX_GRID_SIZE"
proof -
  have "unat (offset + len) = unat offset + unat len"
    using assms by (simp add: unat_word_ariths MAX_GRID_SIZE_def)
  then have "unat (offset + len) \<le> 7" using assms by (simp add: MAX_GRID_SIZE_def)
  then show ?thesis
    by (simp add: word_less_nat_alt MAX_GRID_SIZE_def)
qed

lemma write_data_fields:
  "data (snd (tm1628_write_data s offset len)) = data s"
  "text_arr (snd (tm1628_write_data s offset len)) = text_arr s"
  "segment_mapping (snd (tm1628_write_data s offset len)) = segment_mapping s"
  "grid (snd (tm1628_write_data s offset len)) = grid s"
  "grid_size (snd (tm1628_write_data s offset len)) = grid_size s"
  by (simp_all add: tm1628_write_data_def Let_def split: prod.splits)

lemma write_data_in_range:
  assumes "unat offset + unat len \<le> MAX_GRID_SIZE"
  shows "tm1628_write_data s offset len =
     (let (r1, dev1) = spi_write (spi s) [TM1628_CMD_SET_ADDRESS OR (ucast offset * 2)];
          (r2, dev2) = spi_sync_transfer dev1 [Some [0x40], data_tx (data s) offset len]
      in (r2, s\<lparr>spi := dev2\<rparr>))"
  using small_sum_no_wrap [OF assms]
  by (simp add: tm1628_write_data_def tm1628_set_address_def address_cmd
      TM1628_CMD_DATA_def TM1628_DATA_WRITE_DATA_def Let_def)

lemma write_data_rejected:
  "offset + len > of_nat MAX_GRID_SIZE \<Longrightarrow> tm1628_write_data s offset len = (- EINVAL, s)"
  by (simp add: tm1628_write_data_def Let_def)

lemma write_data_rejected_no_wrap:
  assumes "unat offset + unat len > MAX_GRID_SIZE" and "unat offset + unat len < 2 ^ 32"
  shows "tm1628_write_data s offset len = (- EINVAL, s)"
proof -
  have "unat (offset + len) = unat offset + unat len"
    using assms(2) by (simp add: unat_word_ariths)
  then have "offset + len > of_nat MAX_GRID_SIZE"
    using assms(1) by (simp add: word_less_nat_alt MAX_GRID_SIZE_def)
  then show ?thesis by (rule write_data_rejected)
qed

text \<open>
  C10. When \<open>offset + len\<close> is within the capacity, \<open>tm1628_write_data\<close> issues the data
  transfer whatever the address-setting command returned (\<open>r1\<close>, which may be an error),
  and returns the result \<open>r2\<close> of the data transfer alone.
\<close>

theorem write_data_drops_set_address_result:
  assumes "unat offset + unat len \<le> MAX_GRID_SIZE"
    and "replies (spi s) = r1 # r2 # rs"
  shows "tm1628_write_data s offset len =
     (r2, s\<lparr>spi := (spi s)\<lparr>log := log (spi s) @
              [Spi_write [TM1628_CMD_SET_ADDRESS OR (ucast offset * 2)],
               Spi_sync_transfer [Some [TM1628_CMD_DATA OR TM1628_DATA_WRITE_DATA],
                                  data_tx (data s) offset len]],
              replies := rs\<rparr>\<rparr>)"
  using assms(2)
  by (simp add: write_data_in_range [OF assms(1)] spi_write_def spi_sync_transfer_def
      spi_submit_def TM1628_CMD_DATA_def TM1628_DATA_WRITE_DATA_def)

theorem write_data_drops_set_address_result_witness:
  "tm1628_write_data s_demo 1 2 =
     (0, s_demo\<lparr>spi := \<lparr>log = [Spi_write [0xC2], Spi_sync_transfer [Some [0x40], Some [2, 0, 3, 0]]],
                         replies = []\<rparr>\<rparr>)"
  using write_data_drops_set_address_result [of 1 2 s_demo "-5" 0 "[]"]
  by (simp add: s_demo_def MAX_GRID_SIZE_def TM1628_CMD_SET_ADDRESS_def TM1628_CMD_DATA_def
      TM1628_DATA_WRITE_DATA_def data_tx_def le16_bytes_def)

text \<open>
  C1. \<open>tm1628_write_data\<close> fails with \<open>-EINVAL\<close> whenever \<open>offset + len\<close> exceeds the
  capacity, and the state it returns is the one it was given: the check comes first and
  no transfer is issued. Within the capacity both transfers are issued. The sum is that
  of two \<open>unsigned int\<close>; the statement is for sums below \<open>2 ^ 32\<close>, which holds of all
  that the three callers pass: \<open>(0, MAX_GRID_SIZE)\<close>, \<open>(0, grid_size)\<close> and
  \<open>(grid - 1, 1)\<close>.
\<close>

theorem write_data_bounds:
  assumes "unat offset + unat len < 2 ^ 32"
  shows "(MAX_GRID_SIZE < unat offset + unat len \<longrightarrow>
            tm1628_write_data s offset len = (- EINVAL, s)) \<and>
         (unat offset + unat len \<le> MAX_GRID_SIZE \<longrightarrow>
            log (spi (snd (tm1628_write_data s offset len))) = log (spi s) @
              [Spi_write [TM1628_CMD_SET_ADDRESS OR (ucast offset * 2)],
               Spi_sync_transfer [Some [TM1628_CMD_DATA OR TM1628_DATA_WRITE_DATA],
                                  data_tx (data s) offset len]])"
proof (intro conjI impI)
  assume "MAX_GRID_SIZE < unat offset + unat len"
  then show "tm1628_write_data s offset len = (- EINVAL, s)"
    using assms by (rule write_data_rejected_no_wrap)
next
  assume "unat offset + unat len \<le> MAX_GRID_SIZE"
  then show "log (spi (snd (tm1628_write_data s offset len))) = log (spi s) @
      [Spi_write [TM1628_CMD_SET_ADDRESS OR (ucast offset * 2)],
       Spi_sync_transfer [Some [TM1628_CMD_DATA OR TM1628_DATA_WRITE_DATA],
                          data_tx (data s) offset len]]"
    by (simp add: write_data_in_range spi_write_def spi_sync_transfer_def spi_submit_def
        TM1628_CMD_DATA_def TM1628_DATA_WRITE_DATA_def split: list.split)
qed

theorem write_data_bounds_witness:
  "unat (3 :: u32) + unat (5 :: u32) < 2 ^ 32 \<and> MAX_GRID_SIZE < unat (3 :: u32) + unat (5 :: u32) \<and>
   tm1628_write_data s_demo 3 5 = (- EINVAL, s_demo) \<and>
   unat (6 :: u32) + unat (1 :: u32) \<le> MAX_GRID_SIZE \<and>
   log (spi (snd (tm1628_write_data s_demo 6 1))) =
     [Spi_write [0xCC], Spi_sync_transfer [Some [0x40], Some [7, 0]]]"
proof -
  have h1: "unat (3 :: u32) + unat (5 :: u32) < 2 ^ 32" by simp
  have h2: "MAX_GRID_SIZE < unat (3 :: u32) + unat (5 :: u32)" by (simp add: MAX_GRID_SIZE_def)
  have h3: "unat (6 :: u32) + unat (1 :: u32) < 2 ^ 32" by simp
  have h4: "unat (6 :: u32) + unat (1 :: u32) \<le> MAX_GRID_SIZE" by (simp add: MAX_GRID_SIZE_def)
  from write_data_bounds [OF h1, of s_demo] h2
  have a: "tm1628_write_data s_demo 3 5 = (- EINVAL, s_demo)" by blast
  from write_data_bounds [OF h3, of s_demo] h4
  have "log (spi (snd (tm1628_write_data s_demo 6 1))) = log (spi s_demo) @
      [Spi_write [TM1628_CMD_SET_ADDRESS OR (ucast (6 :: u32) * 2)],
       Spi_sync_transfer [Some [TM1628_CMD_DATA OR TM1628_DATA_WRITE_DATA],
                          data_tx (data s_demo) 6 1]]"
    by blast
  then have b: "log (spi (snd (tm1628_write_data s_demo 6 1))) =
     [Spi_write [0xCC], Spi_sync_transfer [Some [0x40], Some [7, 0]]]"
    by (simp add: s_demo_def TM1628_CMD_SET_ADDRESS_def TM1628_CMD_DATA_def
        TM1628_DATA_WRITE_DATA_def data_tx_def le16_bytes_def)
  from h1 h2 h4 a b show ?thesis by blast
qed

text \<open>
  Outside that range the sum wraps and the check compares the wrapped value: no caller
  passes such arguments.
\<close>

lemma write_data_sum_wraps:
  "(0xFFFFFFFF :: u32) + 2 = 1 \<and>
   tm1628_write_data s_demo 0xFFFFFFFF 2 =
     (0, s_demo\<lparr>spi := \<lparr>log = [Spi_write [0xFE], Spi_sync_transfer [Some [0x40], None]],
                         replies = []\<rparr>\<rparr>)"
  by (simp add: s_demo_def tm1628_write_data_def tm1628_set_address_def spi_write_def
      spi_sync_transfer_def spi_submit_def MAX_GRID_SIZE_def TM1628_CMD_SET_ADDRESS_def
      TM1628_CMD_DATA_def TM1628_DATA_WRITE_DATA_def data_tx_def)

subsection \<open>LED outputs\<close>

lemma sint_small: fixes w :: u32 assumes "uint w < 100" shows "sint w = uint w"
proof -
  have "0 \<le> uint w" by simp
  with assms have "signed_take_bit 31 (uint w) = uint w"
    by (intro signed_take_bit_int_eq_self) (simp_all add: order_trans [of "- 2147483648" 0])
  then show ?thesis by (simp add: sint_uint)
qed

lemma uint_pred: fixes g :: u32 assumes "g \<noteq> 0" shows "uint (g - 1) = uint g - 1" "1 \<le> uint g"
proof -
  have "uint g \<noteq> 0" using assms by (simp add: uint_0_iff)
  moreover have "0 \<le> uint g" by simp
  ultimately show g1: "1 \<le> uint g" by linarith
  then show "uint (g - 1) = uint g - 1" by (simp add: uint_sub_if')
qed

lemma led_offset:
  assumes "led_configured led"
  shows "sint (led_grid led - 1) = uint (led_grid led) - 1"
    and "1 \<le> uint (led_grid led)" and "uint (led_grid led) \<le> 7"
proof -
  let ?g = "led_grid led"
  have nz: "?g \<noteq> 0" and "?g \<le> 7"
    using assms by (simp_all add: led_configured_def MAX_GRID_SIZE_def)
  then show le: "uint ?g \<le> 7" by (simp add: word_le_def)
  show "1 \<le> uint ?g" by (rule uint_pred(2) [OF nz])
  show "sint (?g - 1) = uint ?g - 1"
    using uint_pred(1) [OF nz] sint_small [of "?g - 1"] le by simp
qed

lemma led_bit:
  assumes "led_configured led"
  shows "BIT (uint (led_seg led - 1)) = Some (push_bit (nat (uint (led_seg led) - 1)) 1)"
    and "1 \<le> uint (led_seg led)" and "uint (led_seg led) \<le> 16"
proof -
  let ?g = "led_seg led"
  have nz: "?g \<noteq> 0" and "?g \<le> 16"
    using assms by (simp_all add: led_configured_def MAX_SEGMENT_NUM_def)
  then show le: "uint ?g \<le> 16" by (simp add: word_le_def)
  show ge: "1 \<le> uint ?g" by (rule uint_pred(2) [OF nz])
  show "BIT (uint (?g - 1)) = Some (push_bit (nat (uint ?g - 1)) 1)"
    using uint_pred(1) [OF nz] le ge by (simp add: BIT_def BITS_PER_LONG_def)
qed


lemma le16_of_bit: "cpu_to_le16 (2 ^ n) = (2 ^ n :: u16)"
  by (simp add: cpu_to_le16_def word_of_int_2p)

lemma led_set_eq:
  assumes "led_configured led" and "length (data s) = MAX_GRID_SIZE"
  shows "tm1628_led_set_brightness s led brightness =
     (let p = nat (uint (led_grid led) - 1);
          m = (push_bit (nat (uint (led_seg led) - 1)) 1 :: u16);
          w = data s ! p
      in Some (tm1628_write_data
                 (s\<lparr>data := (data s)[p := (if brightness = LED_OFF then w AND NOT m else w OR m)]\<rparr>)
                 (word_of_int (uint (led_grid led) - 1)) 1))"
  using led_offset [OF assms(1)] led_bit(1) [OF assms(1)] assms(2)
  by (simp add: tm1628_led_set_brightness_def Let_def array_load_def array_store_def
      le16_of_bit MAX_GRID_SIZE_def)

lemma led_get_eq:
  assumes "led_configured led" and "length (data s) = MAX_GRID_SIZE"
  shows "tm1628_led_get_brightness s led =
     (let p = nat (uint (led_grid led) - 1);
          m = (push_bit (nat (uint (led_seg led) - 1)) 1 :: u16)
      in Some (if data s ! p AND m \<noteq> 0 then LED_ON else LED_OFF))"
  using led_offset [OF assms(1)] led_bit(1) [OF assms(1)] assms(2)
  by (simp add: tm1628_led_get_brightness_def Let_def array_load_def
      le16_of_bit MAX_GRID_SIZE_def)

lemma mask_set: "(w OR m) AND m = (m :: u16)"
  by (simp add: bit_eq_iff bit_simps)

lemma mask_clear: "(w AND NOT m) AND m = (0 :: u16)"
  by (simp add: bit_eq_iff bit_simps)

lemma mask_other_set:
  "n \<noteq> k \<Longrightarrow> (w OR push_bit n 1) AND push_bit k 1 = (w AND push_bit k 1 :: u16)"
  by (auto simp add: bit_eq_iff bit_simps)

lemma mask_other_clear:
  "n \<noteq> k \<Longrightarrow> (w AND NOT (push_bit n 1)) AND push_bit k 1 = (w AND push_bit k 1 :: u16)"
  by (auto simp add: bit_eq_iff bit_simps)


text \<open>
  C5. For an LED that passed the checks of \<open>tm1628_spi_probe\<close>: setting it and reading it
  back gives \<open>LED_ON\<close> for every brightness other than \<open>LED_OFF\<close> and \<open>LED_OFF\<close> for
  \<open>LED_OFF\<close>, whatever the SPI transfer returned; and the state read for any other such
  LED at different coordinates, in the same buffer word or not, is what it was before.
\<close>

theorem led_set_then_get:
  assumes led: "led_configured led" and len: "length (data s) = MAX_GRID_SIZE"
  shows "\<exists>ret s'. tm1628_led_set_brightness s led brightness = Some (ret, s') \<and>
     tm1628_led_get_brightness s' led = Some (if brightness = LED_OFF then LED_OFF else LED_ON) \<and>
     (\<forall>other. led_configured other \<and>
          (led_grid other \<noteq> led_grid led \<or> led_seg other \<noteq> led_seg led) \<longrightarrow>
        tm1628_led_get_brightness s' other = tm1628_led_get_brightness s other)"
proof -
  define p where "p = nat (uint (led_grid led) - 1)"
  define n where "n = nat (uint (led_seg led) - 1)"
  define w where "w = data s ! p"
  define d where "d = (data s)[p := (if brightness = LED_OFF then w AND NOT (2 ^ n) else w OR 2 ^ n)]"
  define res where
    "res = tm1628_write_data (s\<lparr>data := d\<rparr>) (word_of_int (uint (led_grid led) - 1)) 1"
  have set_eq: "tm1628_led_set_brightness s led brightness = Some res"
    by (simp add: led_set_eq [OF led len] res_def d_def w_def n_def p_def Let_def push_bit_of_1)
  have data': "data (snd res) = d"
    by (simp add: res_def write_data_fields)
  have len': "length (data (snd res)) = MAX_GRID_SIZE"
    using len by (simp add: data' d_def)
  have p: "p < 7" and n: "n < 16"
    using led_offset [OF led] led_bit [OF led] by (simp_all add: p_def n_def)
  have dp: "d ! p = (if brightness = LED_OFF then w AND NOT (2 ^ n) else w OR 2 ^ n)"
    using p len by (simp add: d_def MAX_GRID_SIZE_def)
  have own: "tm1628_led_get_brightness (snd res) led =
      Some (if brightness = LED_OFF then LED_OFF else LED_ON)"
    using n dp mask_set [of w "2 ^ n"] mask_clear [of w "2 ^ n"]
    by (simp add: led_get_eq [OF led len'] data' Let_def push_bit_of_1
        p_def [symmetric] n_def [symmetric])
  have others: "tm1628_led_get_brightness (snd res) other = tm1628_led_get_brightness s other"
    if other: "led_configured other"
      and diff: "led_grid other \<noteq> led_grid led \<or> led_seg other \<noteq> led_seg led" for other
  proof -
    define q where "q = nat (uint (led_grid other) - 1)"
    define k where "k = nat (uint (led_seg other) - 1)"
    have eqs: "tm1628_led_get_brightness (snd res) other =
          Some (if d ! q AND 2 ^ k \<noteq> 0 then LED_ON else LED_OFF)"
        "tm1628_led_get_brightness s other =
          Some (if data s ! q AND 2 ^ k \<noteq> 0 then LED_ON else LED_OFF)"
      by (simp_all add: led_get_eq [OF other len'] led_get_eq [OF other len] data' Let_def
          push_bit_of_1 q_def k_def)
    have "d ! q AND 2 ^ k = data s ! q AND 2 ^ k"
    proof (cases "q = p")
      case False
      then show ?thesis by (simp add: d_def)
    next
      case True
      then have "uint (led_grid other) = uint (led_grid led)"
        using led_offset [OF led] led_offset [OF other] by (simp add: p_def q_def)
      then have "led_grid other = led_grid led"
        by (rule word_uint_eqI)
      then have "led_seg other \<noteq> led_seg led"
        using diff by simp
      then have "uint (led_seg other) \<noteq> uint (led_seg led)"
        by (auto dest: word_uint_eqI)
      then have "n \<noteq> k"
        using led_bit [OF led] led_bit [OF other] by (simp add: n_def k_def)
      then show ?thesis
        using True dp mask_other_set [of n k w] mask_other_clear [of n k w]
        by (simp add: w_def push_bit_of_1)
    qed
    then show ?thesis by (simp add: eqs)
  qed
  show ?thesis
    by (intro exI [of _ "fst res"] exI [of _ "snd res"]) (simp add: set_eq own others)
qed

theorem led_set_then_get_witness:
  "led_configured led_2_3 \<and> length (data s_demo) = MAX_GRID_SIZE \<and>
   tm1628_led_set_brightness s_demo led_2_3 LED_ON =
     Some (0, s_demo\<lparr>data := [1, 6, 3, 4, 5, 6, 7],
       spi := \<lparr>log = [Spi_write [0xC2], Spi_sync_transfer [Some [0x40], Some [6, 0]]],
              replies = []\<rparr>\<rparr>) \<and>
   (\<exists>ret s'. tm1628_led_set_brightness s_demo led_2_3 LED_ON = Some (ret, s') \<and>
      tm1628_led_get_brightness s' led_2_3 = Some LED_ON \<and>
      tm1628_led_get_brightness s' led_2_1 = tm1628_led_get_brightness s_demo led_2_1)"
proof -
  have h1: "led_configured led_2_3"
    by (simp add: led_configured_def led_2_3_def MAX_GRID_SIZE_def MAX_SEGMENT_NUM_def)
  have h2: "length (data s_demo) = MAX_GRID_SIZE"
    by (simp add: s_demo_def MAX_GRID_SIZE_def)
  have h3: "led_configured led_2_1 \<and>
      (led_grid led_2_1 \<noteq> led_grid led_2_3 \<or> led_seg led_2_1 \<noteq> led_seg led_2_3)"
    by (simp add: led_configured_def led_2_1_def led_2_3_def MAX_GRID_SIZE_def MAX_SEGMENT_NUM_def)
  have run: "tm1628_led_set_brightness s_demo led_2_3 LED_ON =
     Some (0, s_demo\<lparr>data := [1, 6, 3, 4, 5, 6, 7],
       spi := \<lparr>log = [Spi_write [0xC2], Spi_sync_transfer [Some [0x40], Some [6, 0]]],
              replies = []\<rparr>\<rparr>)"
    by (simp add: tm1628_led_set_brightness_def led_2_3_def s_demo_def LED_ON_def LED_OFF_def
        BIT_def BITS_PER_LONG_def cpu_to_le16_def array_load_def array_store_def
        tm1628_write_data_def tm1628_set_address_def spi_write_def spi_sync_transfer_def
        spi_submit_def data_tx_def le16_bytes_def MAX_GRID_SIZE_def
        TM1628_CMD_SET_ADDRESS_def TM1628_CMD_DATA_def TM1628_DATA_WRITE_DATA_def)
  from led_set_then_get [OF h1 h2, of LED_ON] h3 have
    "\<exists>ret s'. tm1628_led_set_brightness s_demo led_2_3 LED_ON = Some (ret, s') \<and>
      tm1628_led_get_brightness s' led_2_3 = Some LED_ON \<and>
      tm1628_led_get_brightness s' led_2_1 = tm1628_led_get_brightness s_demo led_2_1"
    by (auto simp add: LED_ON_def LED_OFF_def)
  with h1 h2 run show ?thesis by simp
qed

subsection \<open>Text rendering\<close>

lemma remap_loop_bits:
  assumes sm: "length sm = 7" "list_all (in_range (int MAX_SEGMENT_NUM)) sm"
    and j: "j \<le> 7"
  shows "\<exists>r. remap_loop sm p (int j) acc = Some r \<and>
     (\<forall>k. bit r k \<longleftrightarrow> bit acc k \<or> (\<exists>i\<in>{j..<7}. bit p i \<and> uint (sm ! i) - 1 = int k))"
  using j
proof (induction j arbitrary: acc rule: inc_induct)
  case base
  show ?case by (subst remap_loop.simps) simp
next
  case (step n)
  have rng: "1 \<le> uint (sm ! n)" "uint (sm ! n) \<le> 16"
    using sm step.hyps by (simp_all add: list_all_length in_range_def MAX_SEGMENT_NUM_def)
  have split: "{n..<7} = insert n {Suc n..<7}"
    using step.hyps by auto
  show ?case
  proof (cases "bit p n")
    case False
    from step.IH [of acc] obtain r where
      r: "remap_loop sm p (int (Suc n)) acc = Some r"
         "\<forall>k. bit r k \<longleftrightarrow> bit acc k \<or> (\<exists>i\<in>{Suc n..<7}. bit p i \<and> uint (sm ! i) - 1 = int k)"
      by blast
    have "remap_loop sm p (int n) acc = Some r"
      using False step.hyps r(1) by (subst remap_loop.simps) (simp add: add.commute)
    then show ?thesis using r(2) False by (auto simp add: split)
  next
    case True
    define b :: int where "b = 2 ^ nat (uint (sm ! n) - 1)"
    from step.IH [of "acc OR b"] obtain r where
      r: "remap_loop sm p (int (Suc n)) (acc OR b) = Some r"
         "\<forall>k. bit r k \<longleftrightarrow> bit (acc OR b) k \<or> (\<exists>i\<in>{Suc n..<7}. bit p i \<and> uint (sm ! i) - 1 = int k)"
      by blast
    have "remap_loop sm p (int n) acc = Some r"
      using True step.hyps r(1) rng sm(1)
      by (subst remap_loop.simps)
        (simp add: add.commute array_load_def BIT_def BITS_PER_LONG_def b_def push_bit_of_1)
    moreover have "bit b k \<longleftrightarrow> uint (sm ! n) - 1 = int k" for k
      using rng by (auto simp add: b_def bit_simps)
    ultimately show ?thesis using r(2) True by (auto simp add: split bit_simps)
  qed
qed

lemma remap_loop_spec:
  assumes "length sm = 7" "list_all (in_range (int MAX_SEGMENT_NUM)) sm"
  shows "\<exists>r. remap_loop sm p 0 0 = Some r \<and> cpu_to_le16 r = remap_spec sm p"
proof -
  from remap_loop_bits [OF assms, of 0 p 0] obtain r where
    r: "remap_loop sm p 0 0 = Some r"
       "\<forall>k. bit r k \<longleftrightarrow> (\<exists>i\<in>{0..<7}. bit p i \<and> uint (sm ! i) - 1 = int k)"
    by auto
  have "cpu_to_le16 r = remap_spec sm p"
    by (rule bit_word_eqI)
      (simp add: cpu_to_le16_def remap_spec_def bit_simps bit_horner_sum_bit_word_iff r(2))
  with r(1) show ?thesis by blast
qed


lemma takeWhile_shorter: "x \<in> set xs \<Longrightarrow> \<not> P x \<Longrightarrow> length (takeWhile P xs) < length xs"
  by (induction xs) auto

lemma strlen_less: "strlen cs = Some n \<Longrightarrow> n < length cs"
  by (auto simp add: strlen_def takeWhile_shorter split: if_splits)

lemma configured_grid:
  assumes "tm1628_configured s" and "i < nat (grid_size s)"
  shows "1 \<le> uint (grid s ! i)" and "uint (grid s ! i) \<le> grid_size s"
    and "physical_offset s i < nat (grid_size s)"
proof -
  have "i < length (take (nat (grid_size s)) (grid s))"
    using assms by (auto simp add: tm1628_configured_def MAX_GRID_SIZE_def)
  moreover have "list_all (in_range (grid_size s)) (take (nat (grid_size s)) (grid s))"
    using assms(1) by (simp add: tm1628_configured_def)
  ultimately have "in_range (grid_size s) (take (nat (grid_size s)) (grid s) ! i)"
    unfolding list_all_length by blast
  then have r: "in_range (grid_size s) (grid s ! i)"
    using assms(2) by simp
  then show "1 \<le> uint (grid s ! i)" and "uint (grid s ! i) \<le> grid_size s"
    by (simp_all add: in_range_def)
  then show "physical_offset s i < nat (grid_size s)"
    by (simp add: physical_offset_def)
qed

lemma show_text_loop_fold:
  assumes conf: "tm1628_configured s" and n: "n < MAX_GRID_SIZE + 1"
    and i: "i \<le> nat (grid_size s)" and d: "length d = MAX_GRID_SIZE"
  shows "show_text_loop seg7 s (int n) (int i) d =
     Some (fold (\<lambda>i d. d[physical_offset s i := text_cell seg7 s n i]) [i..<nat (grid_size s)] d)"
  using i d
proof (induction i arbitrary: d rule: inc_induct)
  case base
  show ?case by (subst show_text_loop.simps) simp
next
  case (step i)
  have g7: "grid_size s \<le> 7" and lens: "length (grid s) = 7" "length (text_arr s) = 8"
      "length (segment_mapping s) = 7"
    and sm: "list_all (in_range (int MAX_SEGMENT_NUM)) (segment_mapping s)"
    using conf by (simp_all add: tm1628_configured_def MAX_GRID_SIZE_def)
  have ilt: "int i < grid_size s" "i < 7" using step.hyps g7 by simp_all
  note gr = configured_grid [OF conf step.hyps(2)]
  have pos: "nat (uint (grid s ! i) - 1) = physical_offset s i" "physical_offset s i < 7"
      "uint (grid s ! i) < 8"
    using gr g7 by (simp_all add: physical_offset_def)
  define d' where "d' = d[physical_offset s i := text_cell seg7 s n i]"
  have len': "length d' = MAX_GRID_SIZE" using step.prems by (simp add: d'_def)
  obtain r where r: "remap_loop (segment_mapping s) (seg7 (text_arr s ! i)) 0 0 = Some r"
      "cpu_to_le16 r = remap_spec (segment_mapping s) (seg7 (text_arr s ! i))"
    using remap_loop_spec [OF lens(3) sm] by blast
  have "show_text_loop seg7 s (int n) (int i) d = show_text_loop seg7 s (int n) (int (Suc i)) d'"
    using ilt gr pos lens step.prems r
    by (subst show_text_loop.simps)
      (simp add: array_load_def array_store_def Let_def d'_def text_cell_def
        MAX_GRID_SIZE_def add.commute)
  also have "\<dots> = Some (fold (\<lambda>i d. d[physical_offset s i := text_cell seg7 s n i])
        [Suc i..<nat (grid_size s)] d')"
    by (rule step.IH [OF len'])
  finally show ?case
    using step.hyps by (simp add: upt_conv_Cons d'_def)
qed


lemma fold_store_length:
  "length (fold (\<lambda>i d. d[f i := c i]) js d) = length d"
  by (induction js arbitrary: d) auto

lemma fold_store_last:
  assumes "a \<le> i" and "i < b" and "f i < length d"
    and "\<forall>j. i < j \<and> j < b \<longrightarrow> f j \<noteq> f i"
  shows "fold (\<lambda>i d. d[f i := c i]) [a..<b] d ! f i = c i"
  using assms(2,4)
proof (induction b)
  case 0
  then show ?case by simp
next
  case (Suc b)
  show ?case
  proof (cases "i = b")
    case True
    then show ?thesis
      using assms(1,3) by (simp add: fold_store_length)
  next
    case False
    then have "i < b" and "f b \<noteq> f i" using Suc.prems by auto
    then show ?thesis
      using Suc.IH Suc.prems(2) assms(1) by simp
  qed
qed

lemma fold_store_all:
  assumes "q < length d" and "a \<le> j" and "j < b" and "f j = q"
    and "\<forall>i. a \<le> i \<and> i < b \<and> f i = q \<longrightarrow> c i = v"
  shows "fold (\<lambda>i d. d[f i := c i]) [a..<b] d ! q = v"
  using assms(3,5)
proof (induction b)
  case 0
  then show ?case by simp
next
  case (Suc b)
  show ?case
  proof (cases "f b = q")
    case True
    then show ?thesis
      using assms(1,2) Suc.prems by (simp add: fold_store_length)
  next
    case False
    then have "j < b" using Suc.prems(1) assms(4) by (cases "j = b") auto
    then show ?thesis
      using Suc.IH Suc.prems(2) False assms(2) by simp
  qed
qed

lemma show_text_eq:
  assumes conf: "tm1628_configured s" and len: "strlen (text_arr s) = Some n"
  shows "tm1628_show_text seg7 s =
     Some (tm1628_write_data (s\<lparr>data := render_spec seg7 s n\<rparr>) 0 (word_of_int (grid_size s)))"
proof -
  have "n < MAX_GRID_SIZE + 1"
    using strlen_less [OF len] conf by (simp add: tm1628_configured_def)
  moreover have "length (data s) = MAX_GRID_SIZE"
    using conf by (simp add: tm1628_configured_def)
  ultimately have "show_text_loop seg7 s (int n) (int 0) (data s) = Some (render_spec seg7 s n)"
    unfolding render_spec_def by (intro show_text_loop_fold [OF conf]) simp_all
  then show ?thesis
    using len by (simp add: tm1628_show_text_def)
qed

lemma grid_size_word:
  assumes "tm1628_configured s"
  shows "unat (word_of_int (grid_size s) :: u32) = nat (grid_size s)"
    and "nat (grid_size s) \<le> MAX_GRID_SIZE"
proof -
  have g: "0 \<le> grid_size s" "grid_size s \<le> 7"
    using assms by (simp_all add: tm1628_configured_def MAX_GRID_SIZE_def)
  then show "nat (grid_size s) \<le> MAX_GRID_SIZE" by (simp add: MAX_GRID_SIZE_def)
  have "uint (word_of_int (grid_size s) :: u32) = grid_size s"
    using g by (simp add: uint_word_of_int take_bit_eq_mod)
  then show "unat (word_of_int (grid_size s) :: u32) = nat (grid_size s)"
    by (simp add: unat_eq_nat_uint)
qed

lemma spi_submit_eq:
  "spi_submit dev e =
     ((case replies dev of [] \<Rightarrow> 0 | r # _ \<Rightarrow> r),
      dev\<lparr>log := log dev @ [e], replies := tl (replies dev)\<rparr>)"
  by (simp add: spi_submit_def split: list.split)

lemma write_data_run:
  assumes "unat offset + unat len \<le> MAX_GRID_SIZE"
  shows "tm1628_write_data s offset len =
     ((case tl (replies (spi s)) of [] \<Rightarrow> 0 | r # _ \<Rightarrow> r),
      s\<lparr>spi := (spi s)\<lparr>log := log (spi s) @
              [Spi_write [TM1628_CMD_SET_ADDRESS OR (ucast offset * 2)],
               Spi_sync_transfer [Some [TM1628_CMD_DATA OR TM1628_DATA_WRITE_DATA],
                                  data_tx (data s) offset len]],
              replies := tl (tl (replies (spi s)))\<rparr>\<rparr>)"
  by (simp add: write_data_in_range [OF assms] spi_write_def spi_sync_transfer_def
      spi_submit_eq TM1628_CMD_DATA_def TM1628_DATA_WRITE_DATA_def)

lemma show_text_run:
  assumes conf: "tm1628_configured s" and len: "strlen (text_arr s) = Some n"
  shows "tm1628_show_text seg7 s =
     Some ((case tl (replies (spi s)) of [] \<Rightarrow> 0 | r # _ \<Rightarrow> r),
           s\<lparr>data := render_spec seg7 s n,
             spi := (spi s)\<lparr>log := log (spi s) @
               [Spi_write [TM1628_CMD_SET_ADDRESS],
                Spi_sync_transfer [Some [TM1628_CMD_DATA OR TM1628_DATA_WRITE_DATA],
                  Some (concat (map le16_bytes (take (nat (grid_size s)) (render_spec seg7 s n))))]],
               replies := tl (tl (replies (spi s)))\<rparr>\<rparr>)"
proof -
  define D where "D = render_spec seg7 s n"
  have lenD: "length D = MAX_GRID_SIZE"
    using conf by (simp add: D_def render_spec_def fold_store_length tm1628_configured_def)
  note gw = grid_size_word [OF conf]
  have tx: "data_tx D 0 (word_of_int (grid_size s)) =
      Some (concat (map le16_bytes (take (nat (grid_size s)) D)))"
    using gw lenD by (simp add: data_tx_def)
  have "unat (0 :: u32) + unat (word_of_int (grid_size s) :: u32) \<le> MAX_GRID_SIZE"
    using gw by simp
  note wd = write_data_run [OF this, of "s\<lparr>data := D\<rparr>"]
  show ?thesis
    by (simp add: show_text_eq [OF conf len] D_def [symmetric] wd tx)
qed

lemma render_cell:
  assumes conf: "tm1628_configured s" and i: "i < nat (grid_size s)"
    and last: "\<forall>j. i < j \<and> j < nat (grid_size s) \<longrightarrow> physical_offset s j \<noteq> physical_offset s i"
  shows "render_spec seg7 s n ! physical_offset s i = text_cell seg7 s n i"
proof -
  have "physical_offset s i < length (data s)"
    using configured_grid(3) [OF conf i] grid_size_word(2) [OF conf] conf
    by (simp add: tm1628_configured_def)
  then show ?thesis
    unfolding render_spec_def using i last by (intro fold_store_last) simp_all
qed

text \<open>Running the model on the sample controller.\<close>

lemmas run_defs = tm1628_show_text_def show_text_loop.simps remap_loop.simps array_load_def
  array_store_def BIT_def BITS_PER_LONG_def cpu_to_le16_def strlen_def NUL_def
  tm1628_write_data_def tm1628_set_address_def spi_write_def spi_sync_transfer_def
  spi_submit_def data_tx_def le16_bytes_def MAX_GRID_SIZE_def EINVAL_def
  TM1628_CMD_SET_ADDRESS_def TM1628_CMD_DATA_def TM1628_DATA_WRITE_DATA_def

lemma s_12AB_configured: "tm1628_configured s_12AB"
  by (simp add: tm1628_configured_def s_12AB_def s_demo_def MAX_GRID_SIZE_def
      MAX_SEGMENT_NUM_def in_range_def)

lemma s_12AB_strlen: "strlen (text_arr s_12AB) = Some 4"
  by (simp add: strlen_def s_12AB_def NUL_def)

lemma s_12AB_show_text:
  "tm1628_show_text (map_to_seg7 font_demo) s_12AB =
     Some (0, s_12AB\<lparr>data := [6, 91, 119, 124, 5, 6, 7],
       spi := \<lparr>log = [Spi_write [0xC0],
                 Spi_sync_transfer [Some [0x40], Some [6, 0, 91, 0, 119, 0, 124, 0]]],
              replies = []\<rparr>\<rparr>)"
  by (simp add: run_defs s_12AB_def s_demo_def map_to_seg7_def font_demo_def)

text \<open>
  C2. On a configured controller whose text has length \<open>n\<close>, one pass of
  \<open>tm1628_show_text\<close> performs the stores of \<open>render_spec\<close>: for each logical index
  \<open>i < grid_size\<close>, in order, the buffer word at \<open>grid[i] - 1\<close> is set to the remapped
  pattern of character \<open>i\<close> when \<open>i < n\<close> and to 0 otherwise; the word is still there at
  the end unless a later index is wired to the same word. Then one
  \<open>tm1628_write_data(0, grid_size)\<close> follows: one address command for offset 0 and one
  data transfer of the first \<open>grid_size\<close> words, whose result is returned.
\<close>

theorem show_text_renders:
  assumes conf: "tm1628_configured s" and len: "strlen (text_arr s) = Some n"
  shows "tm1628_show_text seg7 s =
     Some ((case tl (replies (spi s)) of [] \<Rightarrow> 0 | r # _ \<Rightarrow> r),
           s\<lparr>data := render_spec seg7 s n,
             spi := (spi s)\<lparr>log := log (spi s) @
               [Spi_write [TM1628_CMD_SET_ADDRESS],
                Spi_sync_transfer [Some [TM1628_CMD_DATA OR TM1628_DATA_WRITE_DATA],
                  Some (concat (map le16_bytes (take (nat (grid_size s)) (render_spec seg7 s n))))]],
               replies := tl (tl (replies (spi s)))\<rparr>\<rparr>) \<and>
     (\<forall>i<nat (grid_size s).
        (\<forall>j. i < j \<and> j < nat (grid_size s) \<longrightarrow> physical_offset s j \<noteq> physical_offset s i) \<longrightarrow>
        render_spec seg7 s n ! physical_offset s i = text_cell seg7 s n i)"
  using show_text_run [OF conf len] render_cell [OF conf] by blast

theorem show_text_renders_witness:
  "tm1628_configured s_12AB \<and> strlen (text_arr s_12AB) = Some 4 \<and>
   tm1628_show_text (map_to_seg7 font_demo) s_12AB =
     Some (0, s_12AB\<lparr>data := [6, 91, 119, 124, 5, 6, 7],
       spi := \<lparr>log = [Spi_write [0xC0],
                 Spi_sync_transfer [Some [0x40], Some [6, 0, 91, 0, 119, 0, 124, 0]]],
              replies = []\<rparr>\<rparr>) \<and>
   render_spec (map_to_seg7 font_demo) s_12AB 4 = [6, 91, 119, 124, 5, 6, 7]"
proof -
  from show_text_renders [OF s_12AB_configured s_12AB_strlen, of "map_to_seg7 font_demo"]
  have "data (snd (the (tm1628_show_text (map_to_seg7 font_demo) s_12AB))) =
      render_spec (map_to_seg7 font_demo) s_12AB 4"
    by simp
  then have "render_spec (map_to_seg7 font_demo) s_12AB 4 = [6, 91, 119, 124, 5, 6, 7]"
    by (simp add: s_12AB_show_text)
  then show ?thesis
    using s_12AB_configured s_12AB_strlen s_12AB_show_text by simp
qed

lemma remap_spec_blank: "remap_spec sm 0 = 0"
  by (rule bit_word_eqI) (simp add: remap_spec_def bit_horner_sum_bit_word_iff)

lemma s_1q_configured: "tm1628_configured s_1q"
  by (simp add: tm1628_configured_def s_1q_def s_demo_def MAX_GRID_SIZE_def
      MAX_SEGMENT_NUM_def in_range_def)

lemma s_1q_strlen: "strlen (text_arr s_1q) = Some 2"
  by (simp add: strlen_def s_1q_def NUL_def)

lemma s_1q_show_text:
  "tm1628_show_text (map_to_seg7 font_demo) s_1q =
     Some (0, s_1q\<lparr>data := [6, 0, 0, 0, 5, 6, 7],
       spi := \<lparr>log = [Spi_write [0xC0],
                 Spi_sync_transfer [Some [0x40], Some [6, 0, 0, 0, 0, 0, 0, 0]]],
              replies = []\<rparr>\<rparr>)"
  by (simp add: run_defs s_1q_def s_demo_def map_to_seg7_def font_demo_def)

text \<open>
  C4. Blank for what cannot be shown. With the segment encoder of the spec
  (\<open>map_to_seg7\<close>): a character outside the font table has pattern 0; one pass of
  \<open>tm1628_show_text\<close> on a configured controller completes whatever the text holds, its
  return code is that of the data transfer, and the word of a logical index that lies
  beyond the text or holds a character outside the table is 0 afterwards (unless a later
  index is wired to the same word).
\<close>

theorem unsupported_renders_blank:
  assumes conf: "tm1628_configured s" and len: "strlen (text_arr s) = Some n"
  shows "(\<forall>c. map_seg7 c = None \<longrightarrow> map_to_seg7 map_seg7 c = 0) \<and>
     (\<exists>s'. tm1628_show_text (map_to_seg7 map_seg7) s =
              Some ((case tl (replies (spi s)) of [] \<Rightarrow> 0 | r # _ \<Rightarrow> r), s') \<and>
        (\<forall>i<nat (grid_size s).
           (n \<le> i \<or> map_seg7 (text_arr s ! i) = None) \<and>
           (\<forall>j. i < j \<and> j < nat (grid_size s) \<longrightarrow> physical_offset s j \<noteq> physical_offset s i) \<longrightarrow>
           data s' ! physical_offset s i = 0))"
proof -
  have enc: "map_to_seg7 map_seg7 c = 0" if "map_seg7 c = None" for c
    using that by (simp add: map_to_seg7_def)
  have blank: "text_cell (map_to_seg7 map_seg7) s n i = 0"
    if "n \<le> i \<or> map_seg7 (text_arr s ! i) = None" for i
    using that by (auto simp add: text_cell_def enc remap_spec_blank)
  show ?thesis
    using show_text_run [OF conf len, of "map_to_seg7 map_seg7"]
      render_cell [OF conf, of _ "map_to_seg7 map_seg7" n] enc blank
    by simp
qed

theorem unsupported_renders_blank_witness:
  "tm1628_configured s_1q \<and> strlen (text_arr s_1q) = Some 2 \<and>
   font_demo (CHR ''?'') = None \<and> map_to_seg7 font_demo (CHR ''?'') = 0 \<and>
   tm1628_show_text (map_to_seg7 font_demo) s_1q =
     Some (0, s_1q\<lparr>data := [6, 0, 0, 0, 5, 6, 7],
       spi := \<lparr>log = [Spi_write [0xC0],
                 Spi_sync_transfer [Some [0x40], Some [6, 0, 0, 0, 0, 0, 0, 0]]],
              replies = []\<rparr>\<rparr>)"
proof -
  have none: "font_demo (CHR ''?'') = None"
    by (simp add: font_demo_def)
  from unsupported_renders_blank [OF s_1q_configured s_1q_strlen, of font_demo]
  have "\<forall>c. font_demo c = None \<longrightarrow> map_to_seg7 font_demo c = 0"
    by blast
  with none have "map_to_seg7 font_demo (CHR ''?'') = 0"
    by blast
  with none show ?thesis
    using s_1q_configured s_1q_strlen s_1q_show_text by simp
qed

subsection \<open>The text attribute\<close>

lemmas store_defs = display_text_store_def text_copy_loop.simps size_t_of_int_def E2BIG_def

lemma s_seven_configured: "tm1628_configured s_seven"
  by (simp add: tm1628_configured_def s_seven_def MAX_GRID_SIZE_def MAX_SEGMENT_NUM_def
      in_range_def)

lemma s_demo_configured: "tm1628_configured s_demo"
  by (simp add: tm1628_configured_def s_demo_def MAX_GRID_SIZE_def MAX_SEGMENT_NUM_def
      in_range_def)

text \<open>
  C9. Every store of \<open>display_text_store\<close> into \<open>text\<close> is to land below the capacity
  \<open>MAX_GRID_SIZE + 1\<close>. With \<open>grid_size = MAX_GRID_SIZE\<close> a write of 8 printable bytes
  passes the length check (\<open>8 \<le> grid_size + 1\<close>), the copy loop fills cells 0 to 7 and
  ends with \<open>i = 8\<close>, and the terminating NUL is stored at index 8, one past the last
  cell: the model stops with \<open>None\<close>.
\<close>

theorem text_store_terminator_out_of_bounds:
  "tm1628_configured s_seven \<and> grid_size s_seven = int MAX_GRID_SIZE \<and>
   \<not> 8 > size_t_of_int (grid_size s_seven + 1) \<and>
   text_copy_loop isprint_ascii ''12345678'' 8 0 (text_arr s_seven) = Some (8, ''12345678'') \<and>
   length ''12345678'' = MAX_GRID_SIZE + 1 \<and>
   array_store ''12345678'' 8 NUL = None \<and>
   display_text_store (map_to_seg7 font_demo) isprint_ascii s_seven ''12345678'' 8 = None"
  using s_seven_configured
  by (simp add: store_defs run_defs s_seven_def isprint_ascii_def)

text \<open>
  C3. After an accepted write the stored text is to be at most \<open>grid_size\<close> long. The
  length check admits \<open>grid_size + 1\<close> bytes for a trailing newline but does not look at
  the last byte: with \<open>grid_size = 4\<close> the five printable bytes \<open>abcde\<close> are accepted and
  all five are stored.
\<close>

theorem text_store_keeps_extra_character:
  "tm1628_configured s_demo \<and> grid_size s_demo = 4 \<and>
   (\<exists>s'. display_text_store (map_to_seg7 font_demo) isprint_ascii s_demo ''abcde'' 5 = Some (5, s') \<and>
      text_arr s' = ''abcde'' @ [NUL, NUL, NUL] \<and> strlen (text_arr s') = Some 5)"
  using s_demo_configured
  by (simp add: store_defs run_defs s_demo_def isprint_ascii_def map_to_seg7_def font_demo_def)

text \<open>
  What does hold of \<open>display_text_store\<close>: a write longer than \<open>grid_size + 1\<close> bytes is
  rejected with \<open>-E2BIG\<close> and the state untouched; an accepted write whose printable
  prefix has at most \<open>MAX_GRID_SIZE\<close> characters stores that prefix and a NUL after
  it, and renders.
\<close>

lemma text_store_too_long:
  "count > size_t_of_int (grid_size s + 1) \<Longrightarrow>
     display_text_store seg7 isprint s buf count = Some (- E2BIG, s)"
  by (simp add: display_text_store_def)

lemma size_t_small: "n < 2 ^ 64 \<Longrightarrow> size_t_of_int (int n) = n"
  by (simp add: size_t_of_int_def)

lemma text_copy_loop_run:
  assumes buf: "count \<le> length buf" and t: "count \<le> length t" and small: "count < 2 ^ 64"
    and i: "i \<le> count"
  shows "text_copy_loop isprint buf count (int i) t =
     (let run = takeWhile isprint (drop i (take count buf))
      in Some (int (i + length run), take i t @ run @ drop (i + length run) t))"
  using i t
proof (induction i arbitrary: t rule: inc_induct)
  case base
  show ?case
    using small by (subst text_copy_loop.simps) (simp add: size_t_small)
next
  case (step i)
  have sz: "size_t_of_int (int i) < count"
    using step.hyps small by (simp add: size_t_small)
  have ld: "array_load buf (int i) = Some (buf ! i)"
    using step.hyps buf by (simp add: array_load_def)
  have dr: "drop i (take count buf) = buf ! i # drop (Suc i) (take count buf)"
    using step.hyps buf by (simp add: Cons_nth_drop_Suc [symmetric])
  show ?case
  proof (cases "isprint (buf ! i)")
    case False
    then show ?thesis
      using sz ld dr by (subst text_copy_loop.simps) simp
  next
    case True
    define t' where "t' = t[i := buf ! i]"
    have st: "array_store t (int i) (buf ! i) = Some t'"
      using step.hyps step.prems by (simp add: array_store_def t'_def)
    have len': "count \<le> length t'" using step.prems by (simp add: t'_def)
    have tk: "take (Suc i) t' = take i t @ [buf ! i]"
      using step.hyps step.prems by (simp add: t'_def take_Suc_conv_app_nth)
    have dp: "drop (Suc i + k) t' = drop (Suc i + k) t" for k
      by (simp add: t'_def)
    have "text_copy_loop isprint buf count (int i) t =
        text_copy_loop isprint buf count (int (Suc i)) t'"
      using sz ld st True by (subst text_copy_loop.simps) (simp add: add.commute)
    then show ?thesis
      using step.IH [OF len'] True dr tk dp by (simp add: Let_def)
  qed
qed


lemma takeWhile_stops:
  assumes "k < length xs" and "\<not> P (xs ! k)"
  shows "length (takeWhile P xs) \<le> k"
proof (rule ccontr)
  assume "\<not> length (takeWhile P xs) \<le> k"
  then have lt: "k < length (takeWhile P xs)" by simp
  then have "takeWhile P xs ! k \<in> set (takeWhile P xs)" by (rule nth_mem)
  then have "P (takeWhile P xs ! k)" by (rule set_takeWhileD [THEN conjunct2])
  then show False using assms(2) takeWhile_nth [OF lt] by simp
qed

lemma strlen_terminated:
  assumes "k < length cs" and "cs ! k = NUL"
  shows "\<exists>n\<le>k. strlen cs = Some n"
proof -
  have "NUL \<in> set cs" using assms nth_mem by fastforce
  moreover have "length (takeWhile (\<lambda>c. c \<noteq> NUL) cs) \<le> k"
    using assms by (intro takeWhile_stops) simp_all
  ultimately show ?thesis by (simp add: strlen_def)
qed

lemma configured_text:
  "tm1628_configured s \<Longrightarrow> length t = MAX_GRID_SIZE + 1 \<Longrightarrow> tm1628_configured (s\<lparr>text_arr := t\<rparr>)"
  by (simp add: tm1628_configured_def)

lemma text_store_run:
  assumes conf: "tm1628_configured s" and buf: "count \<le> length buf"
    and cnt: "int count \<le> grid_size s + 1"
    and k: "k = length (takeWhile isprint (take count buf))" and k7: "k \<le> MAX_GRID_SIZE"
  shows "\<exists>n\<le>k.
     (let t' = (takeWhile isprint (take count buf) @ drop k (text_arr s))[k := NUL];
          s1 = s\<lparr>text_arr := t'\<rparr>;
          ret = (case tl (replies (spi s)) of [] \<Rightarrow> 0 | r # _ \<Rightarrow> r)
      in tm1628_configured s1 \<and> strlen t' = Some n \<and>
         display_text_store seg7 isprint s buf count =
           Some (if ret < 0 then ret else int count,
                 s1\<lparr>data := render_spec seg7 s1 n,
                    spi := (spi s)\<lparr>log := log (spi s) @
                      [Spi_write [TM1628_CMD_SET_ADDRESS],
                       Spi_sync_transfer [Some [TM1628_CMD_DATA OR TM1628_DATA_WRITE_DATA],
                         Some (concat (map le16_bytes
                           (take (nat (grid_size s)) (render_spec seg7 s1 n))))]],
                      replies := tl (tl (replies (spi s)))\<rparr>\<rparr>))"
proof -
  define run where "run = takeWhile isprint (take count buf)"
  define t0 where "t0 = run @ drop k (text_arr s)"
  define t' where "t' = t0[k := NUL]"
  define s1 where "s1 = s\<lparr>text_arr := t'\<rparr>"
  have g: "1 \<le> grid_size s" "grid_size s \<le> 7" and lt: "length (text_arr s) = 8"
    using conf by (simp_all add: tm1628_configured_def MAX_GRID_SIZE_def)
  have c8: "count \<le> 8" using cnt g by simp
  have chk: "\<not> count > size_t_of_int (grid_size s + 1)"
    using cnt g by (simp add: size_t_of_int_def)
  have lrun: "length run = k" by (simp add: run_def k)
  have len0: "length t0 = 8"
    using k7 lt lrun by (simp add: t0_def MAX_GRID_SIZE_def)
  have loop: "text_copy_loop isprint buf count 0 (text_arr s) = Some (int k, t0)"
    using text_copy_loop_run [OF buf, of "text_arr s" 0 isprint] c8 lt lrun
    by (simp add: Let_def t0_def run_def)
  have store: "array_store t0 (int k) NUL = Some t'"
    using k7 len0 by (simp add: array_store_def t'_def MAX_GRID_SIZE_def)
  have len': "length t' = MAX_GRID_SIZE + 1"
    using len0 by (simp add: t'_def MAX_GRID_SIZE_def)
  have "k < length t'" "t' ! k = NUL"
    using k7 len0 by (simp_all add: t'_def MAX_GRID_SIZE_def)
  then obtain n where n: "n \<le> k" "strlen t' = Some n"
    using strlen_terminated by blast
  have conf1: "tm1628_configured s1"
    unfolding s1_def by (rule configured_text [OF conf len'])
  have "strlen (text_arr s1) = Some n" using n(2) by (simp add: s1_def)
  note st = show_text_run [OF conf1 this, of seg7]
  have "display_text_store seg7 isprint s buf count =
      Some (if (case tl (replies (spi s)) of [] \<Rightarrow> 0 | r # _ \<Rightarrow> r) < 0
            then (case tl (replies (spi s)) of [] \<Rightarrow> 0 | r # _ \<Rightarrow> r) else int count,
            s1\<lparr>data := render_spec seg7 s1 n,
               spi := (spi s)\<lparr>log := log (spi s) @
                 [Spi_write [TM1628_CMD_SET_ADDRESS],
                  Spi_sync_transfer [Some [TM1628_CMD_DATA OR TM1628_DATA_WRITE_DATA],
                    Some (concat (map le16_bytes
                      (take (nat (grid_size s)) (render_spec seg7 s1 n))))]],
                 replies := tl (tl (replies (spi s)))\<rparr>\<rparr>)"
    using chk loop store st
    by (simp add: display_text_store_def s1_def [symmetric]) (simp add: s1_def)
  then show ?thesis
    using n conf1 unfolding Let_def s1_def t'_def t0_def run_def by blast
qed


subsection \<open>Clearing the display\<close>

lemma grid_onto:
  assumes conf: "tm1628_configured s"
    and perm: "distinct (take (nat (grid_size s)) (grid s))"
    and p: "p < nat (grid_size s)"
  shows "\<exists>j<nat (grid_size s). physical_offset s j = p"
proof -
  let ?g = "nat (grid_size s)"
  have lg: "?g \<le> length (grid s)"
    using conf by (auto simp add: tm1628_configured_def MAX_GRID_SIZE_def)
  have inj: "inj_on (physical_offset s) {0..<?g}"
  proof (rule inj_onI)
    fix i j assume i: "i \<in> {0..<?g}" and j: "j \<in> {0..<?g}"
      and eq: "physical_offset s i = physical_offset s j"
    have "uint (grid s ! i) = uint (grid s ! j)"
      using eq configured_grid(1) [OF conf, of i] configured_grid(1) [OF conf, of j] i j
      by (simp add: physical_offset_def)
    then have "grid s ! i = grid s ! j" by (rule word_uint_eqI)
    then have "take ?g (grid s) ! i = take ?g (grid s) ! j" using i j by simp
    moreover have "i < length (take ?g (grid s))" "j < length (take ?g (grid s))"
      using i j lg by simp_all
    ultimately show "i = j"
      using nth_eq_iff_index_eq [OF perm] by blast
  qed
  have "physical_offset s ` {0..<?g} \<subseteq> {0..<?g}"
    using configured_grid(3) [OF conf] by auto
  then have "physical_offset s ` {0..<?g} = {0..<?g}"
    using inj by (intro endo_inj_surj) simp_all
  then have "p \<in> physical_offset s ` {0..<?g}" using p by simp
  then show ?thesis by auto
qed

lemma render_blank:
  assumes conf: "tm1628_configured s"
    and perm: "distinct (take (nat (grid_size s)) (grid s))"
    and p: "p < nat (grid_size s)"
  shows "render_spec seg7 s 0 ! p = 0"
proof -
  obtain j where j: "j < nat (grid_size s)" "physical_offset s j = p"
    using grid_onto [OF conf perm p] by blast
  have "p < length (data s)"
    using p grid_size_word(2) [OF conf] conf by (simp add: tm1628_configured_def)
  then show ?thesis
    unfolding render_spec_def using j
    by (intro fold_store_all [where j = j]) (simp_all add: text_cell_def)
qed

lemma render_spec_length: "length (render_spec seg7 s n) = length (data s)"
  by (simp add: render_spec_def fold_store_length)

text \<open>
  C6, as amended. When the first \<open>grid_size\<close> entries of the grid table are distinct (a
  permutation of \<open>1, \<dots>, grid_size\<close>), writing a string of \<open>grid_size\<close> bytes and then
  the empty string succeeds twice and leaves 0 in every buffer word below \<open>grid_size\<close>.
\<close>

theorem clear_after_render:
  assumes conf: "tm1628_configured s"
    and perm: "distinct (take (nat (grid_size s)) (grid s))"
    and len: "length buf = nat (grid_size s)"
  shows "\<exists>r1 s1 r2 s2.
     display_text_store seg7 isprint s buf (length buf) = Some (r1, s1) \<and>
     display_text_store seg7 isprint s1 [] 0 = Some (r2, s2) \<and>
     (\<forall>p<nat (grid_size s). data s2 ! p = 0)"
proof -
  have g: "1 \<le> grid_size s" "grid_size s \<le> 7"
    using conf by (simp_all add: tm1628_configured_def MAX_GRID_SIZE_def)
  define k where "k = length (takeWhile isprint (take (length buf) buf))"
  have "k \<le> length buf" by (simp add: k_def length_takeWhile_le)
  then have k7: "k \<le> MAX_GRID_SIZE" using len g by (simp add: MAX_GRID_SIZE_def)
  have cnt: "int (length buf) \<le> grid_size s + 1" using len g by simp
  from text_store_run [OF conf order_refl cnt k_def k7, of seg7]
  obtain r1 s1 where first: "display_text_store seg7 isprint s buf (length buf) = Some (r1, s1)"
    and conf1: "tm1628_configured s1"
    and same: "grid s1 = grid s" "grid_size s1 = grid_size s"
    by (auto simp add: Let_def tm1628_configured_def render_spec_length)
  have perm1: "distinct (take (nat (grid_size s1)) (grid s1))"
    using perm by (simp add: same)
  define t' where "t' = (takeWhile isprint (take 0 []) @ drop 0 (text_arr s1))[0 := NUL]"
  define s1' where "s1' = s1\<lparr>text_arr := t'\<rparr>"
  from text_store_run [of s1 0 "[]" 0 isprint seg7] conf1 g same
  obtain r2 s2 where second: "display_text_store seg7 isprint s1 [] 0 = Some (r2, s2)"
    and conf1': "tm1628_configured s1'"
    and d2: "data s2 = render_spec seg7 s1' 0"
    by (auto simp add: Let_def s1'_def t'_def)
  have perm1': "distinct (take (nat (grid_size s1')) (grid s1'))"
    using perm1 by (simp add: s1'_def)
  have "data s2 ! p = 0" if "p < nat (grid_size s)" for p
    using render_blank [OF conf1' perm1', of p seg7] that d2 same by (simp add: s1'_def)
  with first second show ?thesis by blast
qed


theorem clear_after_render_witness:
  "tm1628_configured s_demo \<and> distinct (take (nat (grid_size s_demo)) (grid s_demo)) \<and>
   length ''12AB'' = nat (grid_size s_demo) \<and>
   (\<exists>r1 s1 r2 s2.
      display_text_store (map_to_seg7 font_demo) isprint_ascii s_demo ''12AB'' 4 = Some (r1, s1) \<and>
      display_text_store (map_to_seg7 font_demo) isprint_ascii s1 [] 0 = Some (r2, s2) \<and>
      data s2 ! 0 = 0 \<and> data s2 ! 1 = 0 \<and> data s2 ! 2 = 0 \<and> data s2 ! 3 = 0)"
proof -
  have h2: "distinct (take (nat (grid_size s_demo)) (grid s_demo))"
    by (simp add: s_demo_def)
  have h3: "length ''12AB'' = nat (grid_size s_demo)"
    by (simp add: s_demo_def)
  have g: "nat (grid_size s_demo) = 4"
    by (simp add: s_demo_def)
  have l: "length ''12AB'' = (4 :: nat)"
    by simp
  from clear_after_render [OF s_demo_configured h2 h3, of "map_to_seg7 font_demo" isprint_ascii]
  obtain r1 s1 r2 s2 where
    run: "display_text_store (map_to_seg7 font_demo) isprint_ascii s_demo ''12AB'' 4 = Some (r1, s1)"
      "display_text_store (map_to_seg7 font_demo) isprint_ascii s1 [] 0 = Some (r2, s2)"
    and zero: "\<forall>p<4. data s2 ! p = 0"
    unfolding g l by blast
  from zero have "data s2 ! 0 = 0" "data s2 ! 1 = 0" "data s2 ! 2 = 0" "data s2 ! 3 = 0"
    by simp_all
  with run s_demo_configured h2 h3 show ?thesis by blast
qed

text \<open>
  C6 as stated, for tables that are in range but not permutations, fails: with two digits
  both wired to grid 1, the word of grid 2 is written by neither render and keeps its
  LED bits.
\<close>

theorem clear_misses_aliased_word:
  "tm1628_configured s_alias \<and> grid_size s_alias = 2 \<and> data s_alias ! 1 = 5 \<and>
   display_text_store (map_to_seg7 font_demo) isprint_ascii s_alias ''12'' 2 =
     Some (2, s_alias\<lparr>text_arr := ''12'' @ [NUL, NUL, NUL, NUL, NUL, NUL],
                data := [0x5B, 5, 0, 0, 0, 0, 0],
                spi := \<lparr>log = [Spi_write [0xC0],
                          Spi_sync_transfer [Some [0x40], Some [0x5B, 0, 5, 0]]],
                        replies = []\<rparr>\<rparr>) \<and>
   display_text_store (map_to_seg7 font_demo) isprint_ascii
       (s_alias\<lparr>text_arr := ''12'' @ [NUL, NUL, NUL, NUL, NUL, NUL],
                data := [0x5B, 5, 0, 0, 0, 0, 0],
                spi := \<lparr>log = [Spi_write [0xC0],
                          Spi_sync_transfer [Some [0x40], Some [0x5B, 0, 5, 0]]],
                        replies = []\<rparr>\<rparr>) [] 0 =
     Some (0, s_alias\<lparr>text_arr := [NUL, CHR ''2'', NUL, NUL, NUL, NUL, NUL, NUL],
                data := [0, 5, 0, 0, 0, 0, 0],
                spi := \<lparr>log = [Spi_write [0xC0],
                          Spi_sync_transfer [Some [0x40], Some [0x5B, 0, 5, 0]],
                          Spi_write [0xC0],
                          Spi_sync_transfer [Some [0x40], Some [0, 0, 5, 0]]],
                        replies = []\<rparr>\<rparr>)"
  by (simp add: store_defs run_defs s_alias_def isprint_ascii_def map_to_seg7_def font_demo_def
      tm1628_configured_def MAX_SEGMENT_NUM_def in_range_def)

subsection \<open>Attach\<close>

lemma probe_leds_run:
  "probe_leds dev cs leds =
     (dev\<lparr>log := log dev @ led_events cs\<rparr>, leds @ registered_leds cs)"
proof (induction cs arbitrary: dev leds)
  case Nil
  show ?case by (simp add: led_events_def registered_leds_def)
next
  case (Cons c cs)
  show ?case
    by (auto simp add: Cons.IH led_events_def registered_leds_def child_in_range_def
        tm1628_register_led_def)
qed

lemma registered_leds_configured:
  "led \<in> set (registered_leds cs) \<Longrightarrow> led_configured led"
  by (auto simp add: registered_leds_def led_configured_def child_in_range_def)

lemma table_out_of_range_run:
  assumes "m \<le> length tbl" and "i \<le> m"
  shows "table_out_of_range tbl (int m) hi (int i) =
     Some (\<not> list_all (in_range hi) (drop i (take m tbl)))"
  using assms(2)
proof (induction i rule: inc_induct)
  case base
  show ?case by (subst table_out_of_range.simps) simp
next
  case (step i)
  have dr: "drop i (take m tbl) = tbl ! i # drop (Suc i) (take m tbl)"
    using step.hyps assms(1) by (simp add: Cons_nth_drop_Suc [symmetric])
  have ld: "array_load tbl (int i) = Some (tbl ! i)"
    using step.hyps assms(1) by (simp add: array_load_def)
  have "table_out_of_range tbl (int m) hi (int i) =
      (if in_range hi (tbl ! i) then table_out_of_range tbl (int m) hi (int (Suc i))
       else Some True)"
    using step.hyps ld
    by (subst table_out_of_range.simps) (auto simp add: in_range_def add.commute)
  then show ?case
    using step.IH by (simp add: dr)
qed


lemma zero_not_in_range: "\<not> in_range hi (0 :: u8)"
  by (simp add: in_range_def)

lemma read_zero_filled:
  assumes "n \<le> L"
  shows "list_all (in_range hi) (take n (take n vals @ drop (length (take n vals)) (replicate L 0)))
     \<longleftrightarrow> n \<le> length vals \<and> list_all (in_range hi) (take n vals)"
proof (cases "n \<le> length vals")
  case True
  then show ?thesis by simp
next
  case False
  then have tk: "take n (take n vals @ drop (length (take n vals)) (replicate L 0)) =
      vals @ replicate (n - length vals) 0"
    using assms by (simp add: min_def)
  from False obtain k where "n - length vals = Suc k"
    by (cases "n - length vals") simp_all
  then have "\<not> list_all (in_range hi) (replicate (n - length vals) 0)"
    by (simp add: zero_not_in_range)
  then show ?thesis using False by (simp only: tk) simp
qed

lemma table_check:
  assumes "n \<le> L"
  shows "table_out_of_range (take n vals @ drop (length (take n vals)) (replicate L 0)) (int n) hi 0 =
     Some (\<not> (n \<le> length vals \<and> list_all (in_range hi) (take n vals)))"
proof -
  let ?T = "take n vals @ drop (length (take n vals)) (replicate L 0)"
  have "n \<le> length ?T" using assms by simp
  from table_out_of_range_run [OF this, of 0 hi]
  have "table_out_of_range ?T (int n) hi 0 = Some (\<not> list_all (in_range hi) (take n ?T))"
    by simp
  then show ?thesis
    by (simp only: read_zero_filled [OF assms])
qed

lemma probe_no_leds_cases:
  assumes zero: "grid s = replicate MAX_GRID_SIZE 0" "segment_mapping s = replicate 7 0"
  shows "\<exists>r s'. probe_no_leds pf s leds = Some (r, Some (s', leds)) \<and>
     (if tables_in_range pf \<and> 0 \<le> fst (grid_read pf) \<and> 0 \<le> fst (segment_read pf)
      then r = create_file_ret pf \<and>
           s' = s\<lparr>grid_size := grid_count pf,
                  grid := take (nat (grid_count pf)) (snd (grid_read pf)) @
                          replicate (MAX_GRID_SIZE - nat (grid_count pf)) 0,
                  segment_mapping := take 7 (snd (segment_read pf)),
                  spi := (spi s)\<lparr>log := log (spi s) @ [Create_file]\<rparr>\<rparr>
      else r \<noteq> 0 \<and> spi s' = spi s)"
proof (cases "grid_count pf < 1 \<or> grid_count pf > int MAX_GRID_SIZE")
  case True
  then show ?thesis
    by (auto simp add: probe_no_leds_def tables_in_range_def EINVAL_def)
next
  case False
  define n where "n = nat (grid_count pf)"
  have c: "grid_count pf = int n" "n \<le> 7" "1 \<le> n"
    using False by (auto simp add: n_def MAX_GRID_SIZE_def)
  note tg = table_check [of n 7 "snd (grid_read pf)" "int n"]
  note ts = table_check [of 7 7 "snd (segment_read pf)" "int MAX_SEGMENT_NUM"]
  show ?thesis
  proof (cases "tables_in_range pf \<and> 0 \<le> fst (grid_read pf) \<and> 0 \<le> fst (segment_read pf)")
    case True
    then show ?thesis
      using c tg ts zero
      by (simp add: probe_no_leds_def tables_in_range_def Let_def split_beta
          device_property_read_u8_array_def log_event_def MAX_GRID_SIZE_def)
  next
    case False
    then show ?thesis
      using c tg ts zero
      by (auto simp add: probe_no_leds_def tables_in_range_def Let_def split_beta
          device_property_read_u8_array_def log_event_def MAX_GRID_SIZE_def EINVAL_def)
  qed
qed


lemma clear_tx:
  "data_tx (replicate MAX_GRID_SIZE 0) 0 (of_nat MAX_GRID_SIZE) = Some (replicate (2 * MAX_GRID_SIZE) 0)"
proof -
  have r7: "replicate 7 (0 :: u16) = [0, 0, 0, 0, 0, 0, 0]"
    by (simp add: numeral_eq_Suc)
  have r14: "replicate 14 (0 :: u8) = [0, 0, 0, 0, 0, 0, 0, 0, 0, 0, 0, 0, 0, 0]"
    by (simp add: numeral_eq_Suc)
  show ?thesis
    by (simp add: data_tx_def MAX_GRID_SIZE_def le16_bytes_def r7 r14)
qed

lemma spi_update_order:
  "dev\<lparr>replies := rs, log := evs\<rparr> = dev\<lparr>log := evs, replies := rs\<rparr>"
  by (cases dev) simp

lemma probe_unfold:
  assumes "alloc_ok pf"
  shows "tm1628_spi_probe pf dev =
     (let r_clear = (case tl (replies dev) of [] \<Rightarrow> 0 | r # _ \<Rightarrow> r);
          dev_a = dev\<lparr>log := log dev @
                    [Msleep 200, Spi_write [TM1628_CMD_SET_ADDRESS],
                     Spi_sync_transfer [Some [TM1628_CMD_DATA OR TM1628_DATA_WRITE_DATA],
                                        Some (replicate (2 * MAX_GRID_SIZE) 0)]],
                    replies := tl (tl (replies dev))\<rparr>;
          s_zero = \<lparr>spi = dev_a, data = replicate MAX_GRID_SIZE 0,
                    text_arr = replicate (MAX_GRID_SIZE + 1) NUL,
                    segment_mapping = replicate 7 0, grid = replicate MAX_GRID_SIZE 0,
                    grid_size = 0\<rparr>;
          dev_b = dev_a\<lparr>log := log dev_a @
                    [Spi_write [TM1628_CMD_DISPLAY_MODE OR TM1628_DISPLAY_MODE_6_12],
                     Spi_write [(TM1628_CMD_DISPLAY_CTRL OR TM1628_BRIGHTNESS_MAX) OR
                                TM1628_DISPLAY_CTRL_DISPLAY_ON]] @
                    (if leds_class pf then led_events (children pf) else []),
                    replies := tl (tl (replies dev_a))\<rparr>;
          leds = (if leds_class pf then registered_leds (children pf) else [])
      in if r_clear \<noteq> 0 then Some (r_clear, Some (s_zero, []))
         else probe_no_leds pf (s_zero\<lparr>spi := dev_b\<rparr>) leds)"
proof -
  have "unat (0 :: u32) + unat (of_nat MAX_GRID_SIZE :: u32) \<le> MAX_GRID_SIZE"
    by (simp add: MAX_GRID_SIZE_def)
  note wd = write_data_run [OF this]
  show ?thesis
    using assms
    by (simp add: tm1628_spi_probe_def log_event_def wd clear_tx Let_def
        tm1628_set_display_mode_def tm1628_set_display_ctrl_def spi_write_def spi_submit_eq
        probe_leds_run spi_update_order)
qed


lemma butlast_attach_events:
  "butlast (attach_events pf) =
     [Msleep 200,
      Spi_write [TM1628_CMD_SET_ADDRESS],
      Spi_sync_transfer [Some [TM1628_CMD_DATA OR TM1628_DATA_WRITE_DATA],
                         Some (replicate (2 * MAX_GRID_SIZE) 0)],
      Spi_write [TM1628_CMD_DISPLAY_MODE OR TM1628_DISPLAY_MODE_6_12],
      Spi_write [(TM1628_CMD_DISPLAY_CTRL OR TM1628_BRIGHTNESS_MAX) OR
                 TM1628_DISPLAY_CTRL_DISPLAY_ON]]
     @ (if leds_class pf then led_events (children pf) else [])"
  by (simp add: attach_events_def butlast_append)

lemma attach_events_split: "attach_events pf = butlast (attach_events pf) @ [Create_file]"
  by (simp add: attach_events_def butlast_append)

lemma no_file_before_tables: "Create_file \<notin> set (butlast (attach_events pf))"
  by (auto simp add: butlast_attach_events led_events_def)

lemma probe_cases:
  "\<exists>r st. tm1628_spi_probe pf dev = Some (r, st) \<and>
     (if alloc_ok pf \<and> (case tl (replies dev) of [] \<Rightarrow> 0 | r # _ \<Rightarrow> r) = 0 \<and>
         tables_in_range pf \<and> 0 \<le> fst (grid_read pf) \<and> 0 \<le> fst (segment_read pf)
      then r = create_file_ret pf \<and> new_events dev st = attach_events pf \<and>
           (\<exists>s. st = Some (s, if leds_class pf then registered_leds (children pf) else []) \<and>
                tm1628_configured s \<and> grid_size s = grid_count pf \<and>
                take (nat (grid_count pf)) (grid s) = take (nat (grid_count pf)) (snd (grid_read pf)) \<and>
                segment_mapping s = take 7 (snd (segment_read pf)))
      else r \<noteq> 0 \<and> prefix (new_events dev st) (butlast (attach_events pf)))"
proof (cases "alloc_ok pf")
  case False
  then show ?thesis
    by (simp add: tm1628_spi_probe_def new_events_def ENOMEM_def)
next
  case True
  define r_clear where "r_clear = (case tl (replies dev) of [] \<Rightarrow> 0 | r # _ \<Rightarrow> r)"
  define dev_a where "dev_a = dev\<lparr>log := log dev @
      [Msleep 200, Spi_write [TM1628_CMD_SET_ADDRESS],
       Spi_sync_transfer [Some [TM1628_CMD_DATA OR TM1628_DATA_WRITE_DATA],
                          Some (replicate (2 * MAX_GRID_SIZE) 0)]],
      replies := tl (tl (replies dev))\<rparr>"
  define s_zero where "s_zero = \<lparr>spi = dev_a, data = replicate MAX_GRID_SIZE 0,
      text_arr = replicate (MAX_GRID_SIZE + 1) NUL,
      segment_mapping = replicate 7 0, grid = replicate MAX_GRID_SIZE 0, grid_size = 0\<rparr>"
  define dev_b where "dev_b = dev_a\<lparr>log := log dev_a @
      [Spi_write [TM1628_CMD_DISPLAY_MODE OR TM1628_DISPLAY_MODE_6_12],
       Spi_write [(TM1628_CMD_DISPLAY_CTRL OR TM1628_BRIGHTNESS_MAX) OR
                  TM1628_DISPLAY_CTRL_DISPLAY_ON]] @
      (if leds_class pf then led_events (children pf) else []),
      replies := tl (tl (replies dev_a))\<rparr>"
  define leds where "leds = (if leds_class pf then registered_leds (children pf) else [])"
  have unf: "tm1628_spi_probe pf dev =
      (if r_clear \<noteq> 0 then Some (r_clear, Some (s_zero, []))
       else probe_no_leds pf (s_zero\<lparr>spi := dev_b\<rparr>) leds)"
    unfolding r_clear_def dev_a_def s_zero_def dev_b_def leds_def
    using probe_unfold [OF True, of dev] by (simp add: Let_def)
  show ?thesis
  proof (cases "r_clear = 0")
    case False
    have "new_events dev (Some (s_zero, [])) = take 3 (butlast (attach_events pf))"
      by (simp add: new_events_def s_zero_def dev_a_def butlast_attach_events)
    then have "prefix (new_events dev (Some (s_zero, []))) (butlast (attach_events pf))"
      by (simp add: take_is_prefix)
    then show ?thesis
      using False True unf by (simp add: r_clear_def [symmetric])
  next
    case clear: True
    let ?S = "s_zero\<lparr>spi := dev_b\<rparr>"
    have zero: "grid ?S = replicate MAX_GRID_SIZE 0" "segment_mapping ?S = replicate 7 0"
      by (simp_all add: s_zero_def)
    have logS: "log (spi ?S) = log dev @ butlast (attach_events pf)"
      by (simp add: dev_b_def dev_a_def butlast_attach_events)
    from probe_no_leds_cases [OF zero, of pf leds] obtain r s' where
      run: "probe_no_leds pf ?S leds = Some (r, Some (s', leds))"
      and res: "if tables_in_range pf \<and> 0 \<le> fst (grid_read pf) \<and> 0 \<le> fst (segment_read pf)
        then r = create_file_ret pf \<and>
           s' = ?S\<lparr>grid_size := grid_count pf,
                  grid := take (nat (grid_count pf)) (snd (grid_read pf)) @
                          replicate (MAX_GRID_SIZE - nat (grid_count pf)) 0,
                  segment_mapping := take 7 (snd (segment_read pf)),
                  spi := (spi ?S)\<lparr>log := log (spi ?S) @ [Create_file]\<rparr>\<rparr>
        else r \<noteq> 0 \<and> spi s' = spi ?S"
      by blast
    have probe: "tm1628_spi_probe pf dev = Some (r, Some (s', leds))"
      using unf clear run by simp
    show ?thesis
    proof (cases "tables_in_range pf \<and> 0 \<le> fst (grid_read pf) \<and> 0 \<le> fst (segment_read pf)")
      case False
      then have "r \<noteq> 0" and "spi s' = spi ?S" using res by simp_all
      then have "new_events dev (Some (s', leds)) = butlast (attach_events pf)"
        using logS by (simp add: new_events_def)
      then show ?thesis
        using False probe \<open>r \<noteq> 0\<close> by auto
    next
      case ok: True
      then have r: "r = create_file_ret pf"
        and s': "s' = ?S\<lparr>grid_size := grid_count pf,
                  grid := take (nat (grid_count pf)) (snd (grid_read pf)) @
                          replicate (MAX_GRID_SIZE - nat (grid_count pf)) 0,
                  segment_mapping := take 7 (snd (segment_read pf)),
                  spi := (spi ?S)\<lparr>log := log (spi ?S) @ [Create_file]\<rparr>\<rparr>"
        using res by simp_all
      have ev: "new_events dev (Some (s', leds)) = attach_events pf"
        using logS attach_events_split [of pf] by (simp add: new_events_def s')
      have t: "1 \<le> grid_count pf" "grid_count pf \<le> 7"
          "nat (grid_count pf) \<le> length (snd (grid_read pf))"
          "list_all (in_range (grid_count pf)) (take (nat (grid_count pf)) (snd (grid_read pf)))"
          "7 \<le> length (snd (segment_read pf))"
          "list_all (in_range (int MAX_SEGMENT_NUM)) (take 7 (snd (segment_read pf)))"
        using ok by (simp_all add: tables_in_range_def MAX_GRID_SIZE_def)
      have conf: "tm1628_configured s'"
        using t by (simp add: tm1628_configured_def s' s_zero_def MAX_GRID_SIZE_def)
      have "grid_size s' = grid_count pf"
          "take (nat (grid_count pf)) (grid s') = take (nat (grid_count pf)) (snd (grid_read pf))"
          "segment_mapping s' = take 7 (snd (segment_read pf))"
        using t by (simp_all add: s')
      then show ?thesis
        using ok True clear probe r ev conf
        by (simp add: r_clear_def [symmetric] leds_def [symmetric])
    qed
  qed
qed


text \<open>Running the model of attach.\<close>

lemma replicate_7: "replicate 7 x = [x, x, x, x, x, x, x]"
  by (simp add: numeral_eq_Suc)

lemma replicate_8: "replicate 8 x = [x, x, x, x, x, x, x, x]"
  by (simp add: numeral_eq_Suc)

lemmas probe_defs = tm1628_spi_probe_def probe_no_leds_def log_event_def
  tm1628_set_display_mode_def tm1628_set_display_ctrl_def tm1628_register_led_def
  device_property_read_u8_array_def table_out_of_range.simps MAX_SEGMENT_NUM_def
  TM1628_CMD_DISPLAY_MODE_def TM1628_DISPLAY_MODE_6_12_def TM1628_CMD_DISPLAY_CTRL_def
  TM1628_BRIGHTNESS_MAX_def TM1628_DISPLAY_CTRL_DISPLAY_ON_def replicate_7 replicate_8

lemma pf_demo_probe:
  "tm1628_spi_probe pf_demo dev_demo =
     Some (0, Some (\<lparr>spi = \<lparr>log = [Msleep 200, Spi_write [0xC0],
                        Spi_sync_transfer [Some [0x40], Some [0, 0, 0, 0, 0, 0, 0, 0, 0, 0, 0, 0, 0, 0]],
                        Spi_write [0x02], Spi_write [0x8F], Led_register 2 3, Create_file],
                      replies = []\<rparr>,
               data = [0, 0, 0, 0, 0, 0, 0],
               text_arr = [NUL, NUL, NUL, NUL, NUL, NUL, NUL, NUL],
               segment_mapping = [1, 2, 3, 4, 5, 6, 7],
               grid = [1, 2, 3, 4, 0, 0, 0], grid_size = 4\<rparr>,
             [\<lparr>led_grid = 2, led_seg = 3\<rparr>]))"
  by (simp add: probe_defs run_defs pf_demo_def dev_demo_def)

lemma pf_bad_entry_probe:
  "tm1628_spi_probe pf_bad_entry dev_demo =
     Some (- EINVAL, Some (\<lparr>spi = \<lparr>log = [Msleep 200, Spi_write [0xC0],
                        Spi_sync_transfer [Some [0x40], Some [0, 0, 0, 0, 0, 0, 0, 0, 0, 0, 0, 0, 0, 0]],
                        Spi_write [0x02], Spi_write [0x8F], Led_register 2 3],
                      replies = []\<rparr>,
               data = [0, 0, 0, 0, 0, 0, 0],
               text_arr = [NUL, NUL, NUL, NUL, NUL, NUL, NUL, NUL],
               segment_mapping = [0, 0, 0, 0, 0, 0, 0],
               grid = [1, 2, 5, 4, 0, 0, 0], grid_size = 4\<rparr>,
             [\<lparr>led_grid = 2, led_seg = 3\<rparr>]))"
  by (simp add: probe_defs run_defs pf_bad_entry_def pf_demo_def dev_demo_def)

text \<open>
  C7. Attach fails, and the text attribute is not created, whenever the tables are not in
  range (\<open>tables_in_range\<close>: the grid count outside \<open>[1, MAX_GRID_SIZE]\<close>, a grid entry
  outside \<open>[1, grid count]\<close>, a segment entry outside \<open>[1, MAX_SEGMENT_NUM]\<close>, or too few
  entries); and when they are in range and the earlier steps succeeded (allocation, the
  clearing transfer, reading the two properties), the table checks pass: the attribute
  file is created, the result is that of creating it, and the controller left behind is
  configured. LEDs are registered before the tables are read; see C8.
\<close>

theorem attach_validates_tables:
  "\<exists>r st. tm1628_spi_probe pf dev = Some (r, st) \<and>
     (\<not> tables_in_range pf \<longrightarrow> r \<noteq> 0 \<and> Create_file \<notin> set (new_events dev st)) \<and>
     (tables_in_range pf \<and> alloc_ok pf \<and>
      (case tl (replies dev) of [] \<Rightarrow> 0 | r # _ \<Rightarrow> r) = 0 \<and>
      0 \<le> fst (grid_read pf) \<and> 0 \<le> fst (segment_read pf) \<longrightarrow>
        r = create_file_ret pf \<and> Create_file \<in> set (new_events dev st) \<and>
        (\<exists>s leds. st = Some (s, leds) \<and> tm1628_configured s \<and> grid_size s = grid_count pf))"
proof -
  from probe_cases [of pf dev] obtain r st where
    run: "tm1628_spi_probe pf dev = Some (r, st)"
    and res: "if alloc_ok pf \<and> (case tl (replies dev) of [] \<Rightarrow> 0 | r # _ \<Rightarrow> r) = 0 \<and>
         tables_in_range pf \<and> 0 \<le> fst (grid_read pf) \<and> 0 \<le> fst (segment_read pf)
      then r = create_file_ret pf \<and> new_events dev st = attach_events pf \<and>
           (\<exists>s. st = Some (s, if leds_class pf then registered_leds (children pf) else []) \<and>
                tm1628_configured s \<and> grid_size s = grid_count pf \<and>
                take (nat (grid_count pf)) (grid s) = take (nat (grid_count pf)) (snd (grid_read pf)) \<and>
                segment_mapping s = take 7 (snd (segment_read pf)))
      else r \<noteq> 0 \<and> prefix (new_events dev st) (butlast (attach_events pf))"
    by blast
  have bad: "r \<noteq> 0 \<and> Create_file \<notin> set (new_events dev st)" if "\<not> tables_in_range pf"
  proof -
    from that res have "r \<noteq> 0" and "prefix (new_events dev st) (butlast (attach_events pf))"
      by simp_all
    then show ?thesis
      using no_file_before_tables [of pf] set_mono_prefix by blast
  qed
  have good: "r = create_file_ret pf \<and> Create_file \<in> set (new_events dev st) \<and>
        (\<exists>s leds. st = Some (s, leds) \<and> tm1628_configured s \<and> grid_size s = grid_count pf)"
    if "tables_in_range pf \<and> alloc_ok pf \<and>
      (case tl (replies dev) of [] \<Rightarrow> 0 | r # _ \<Rightarrow> r) = 0 \<and>
      0 \<le> fst (grid_read pf) \<and> 0 \<le> fst (segment_read pf)"
  proof -
    from that res have "r = create_file_ret pf" and ev: "new_events dev st = attach_events pf"
      and "\<exists>s leds. st = Some (s, leds) \<and> tm1628_configured s \<and> grid_size s = grid_count pf"
      by auto
    moreover have "Create_file \<in> set (attach_events pf)"
      by (simp add: attach_events_def)
    ultimately show ?thesis by simp
  qed
  from run bad good show ?thesis by blast
qed

theorem attach_validates_tables_witness:
  "\<not> tables_in_range pf_bad_entry \<and>
   (\<exists>st. tm1628_spi_probe pf_bad_entry dev_demo = Some (- EINVAL, st) \<and> - EINVAL \<noteq> 0 \<and>
      Create_file \<notin> set (new_events dev_demo st)) \<and>
   tables_in_range pf_demo \<and>
   (\<exists>s leds. tm1628_spi_probe pf_demo dev_demo = Some (0, Some (s, leds)) \<and>
      Create_file \<in> set (new_events dev_demo (Some (s, leds))) \<and> tm1628_configured s \<and>
      grid_size s = 4)"
proof -
  have h1: "\<not> tables_in_range pf_bad_entry"
    by (simp add: tables_in_range_def pf_bad_entry_def pf_demo_def in_range_def MAX_GRID_SIZE_def)
  have h2: "tables_in_range pf_demo \<and> alloc_ok pf_demo \<and>
      (case tl (replies dev_demo) of [] \<Rightarrow> 0 | r # _ \<Rightarrow> r) = 0 \<and>
      0 \<le> fst (grid_read pf_demo) \<and> 0 \<le> fst (segment_read pf_demo)"
    by (simp add: tables_in_range_def pf_demo_def dev_demo_def in_range_def MAX_GRID_SIZE_def
        MAX_SEGMENT_NUM_def)
  from attach_validates_tables [of pf_bad_entry dev_demo] h1
  have "\<exists>st. tm1628_spi_probe pf_bad_entry dev_demo = Some (- EINVAL, st) \<and> - EINVAL \<noteq> 0 \<and>
      Create_file \<notin> set (new_events dev_demo st)"
    by (auto simp add: pf_bad_entry_probe)
  moreover from attach_validates_tables [of pf_demo dev_demo] h2
  have "\<exists>s leds. tm1628_spi_probe pf_demo dev_demo = Some (0, Some (s, leds)) \<and>
      Create_file \<in> set (new_events dev_demo (Some (s, leds))) \<and> tm1628_configured s \<and>
      grid_size s = 4"
    by (auto simp add: pf_demo_probe)
  ultimately show ?thesis using h1 h2 by blast
qed

lemma tables_in_range_parts:
  "tables_in_range pf \<longleftrightarrow>
     grid_count_in_range pf \<and> grid_table_in_range pf \<and> segment_table_in_range pf"
  by (auto simp add: tables_in_range_def grid_count_in_range_def grid_table_in_range_def
      segment_table_in_range_def)

lemma probe_no_leds_ret:
  assumes zero: "grid s = replicate MAX_GRID_SIZE 0" "segment_mapping s = replicate 7 0"
  shows "\<exists>st. probe_no_leds pf s leds =
     Some (if \<not> grid_count_in_range pf then - EINVAL
           else if fst (grid_read pf) < 0 then fst (grid_read pf)
           else if \<not> grid_table_in_range pf then - EINVAL
           else if fst (segment_read pf) < 0 then fst (segment_read pf)
           else if \<not> segment_table_in_range pf then - EINVAL
           else create_file_ret pf, st)"
proof (cases "grid_count_in_range pf")
  case False
  then show ?thesis
    by (auto simp add: probe_no_leds_def grid_count_in_range_def)
next
  case True
  define n where "n = nat (grid_count pf)"
  have c: "grid_count pf = int n" "n \<le> 7" "1 \<le> n"
    using True by (auto simp add: n_def grid_count_in_range_def MAX_GRID_SIZE_def)
  note tg = table_check [of n 7 "snd (grid_read pf)" "int n"]
  note ts = table_check [of 7 7 "snd (segment_read pf)" "int MAX_SEGMENT_NUM"]
  show ?thesis
    using True c tg ts zero
    by (auto simp add: probe_no_leds_def grid_count_in_range_def grid_table_in_range_def
        segment_table_in_range_def Let_def split_beta device_property_read_u8_array_def
        log_event_def MAX_GRID_SIZE_def)
qed


lemma probe_steps:
  "\<exists>st. tm1628_spi_probe pf dev = Some (attach_ret pf dev, st) \<and>
     new_events dev st = attach_steps pf dev"
proof (cases "alloc_ok pf")
  case False
  then show ?thesis
    by (simp add: tm1628_spi_probe_def new_events_def attach_ret_def attach_steps_def)
next
  case True
  define dev_a where "dev_a = dev\<lparr>log := log dev @
      [Msleep 200, Spi_write [TM1628_CMD_SET_ADDRESS],
       Spi_sync_transfer [Some [TM1628_CMD_DATA OR TM1628_DATA_WRITE_DATA],
                          Some (replicate (2 * MAX_GRID_SIZE) 0)]],
      replies := tl (tl (replies dev))\<rparr>"
  define s_zero where "s_zero = \<lparr>spi = dev_a, data = replicate MAX_GRID_SIZE 0,
      text_arr = replicate (MAX_GRID_SIZE + 1) NUL,
      segment_mapping = replicate 7 0, grid = replicate MAX_GRID_SIZE 0, grid_size = 0\<rparr>"
  define dev_b where "dev_b = dev_a\<lparr>log := log dev_a @
      [Spi_write [TM1628_CMD_DISPLAY_MODE OR TM1628_DISPLAY_MODE_6_12],
       Spi_write [(TM1628_CMD_DISPLAY_CTRL OR TM1628_BRIGHTNESS_MAX) OR
                  TM1628_DISPLAY_CTRL_DISPLAY_ON]] @
      (if leds_class pf then led_events (children pf) else []),
      replies := tl (tl (replies dev_a))\<rparr>"
  define leds where "leds = (if leds_class pf then registered_leds (children pf) else [])"
  have unf: "tm1628_spi_probe pf dev =
      (if clear_ret dev \<noteq> 0 then Some (clear_ret dev, Some (s_zero, []))
       else probe_no_leds pf (s_zero\<lparr>spi := dev_b\<rparr>) leds)"
    unfolding clear_ret_def dev_a_def s_zero_def dev_b_def leds_def
    using probe_unfold [OF True, of dev] by (simp add: Let_def)
  show ?thesis
  proof (cases "clear_ret dev = 0")
    case False
    then show ?thesis
      using True unf
      by (simp add: attach_ret_def attach_steps_def new_events_def s_zero_def dev_a_def)
  next
    case clear: True
    let ?S = "s_zero\<lparr>spi := dev_b\<rparr>"
    let ?ok = "tables_in_range pf \<and> 0 \<le> fst (grid_read pf) \<and> 0 \<le> fst (segment_read pf)"
    have zero: "grid ?S = replicate MAX_GRID_SIZE 0" "segment_mapping ?S = replicate 7 0"
      by (simp_all add: s_zero_def)
    have logS: "log (spi ?S) = log dev @ butlast (attach_events pf)"
      by (simp add: dev_b_def dev_a_def butlast_attach_events)
    from probe_no_leds_cases [OF zero, of pf leds] obtain r s' where
      run: "probe_no_leds pf ?S leds = Some (r, Some (s', leds))"
      and res: "if ?ok
        then r = create_file_ret pf \<and>
           s' = ?S\<lparr>grid_size := grid_count pf,
                  grid := take (nat (grid_count pf)) (snd (grid_read pf)) @
                          replicate (MAX_GRID_SIZE - nat (grid_count pf)) 0,
                  segment_mapping := take 7 (snd (segment_read pf)),
                  spi := (spi ?S)\<lparr>log := log (spi ?S) @ [Create_file]\<rparr>\<rparr>
        else r \<noteq> 0 \<and> spi s' = spi ?S"
      by blast
    from probe_no_leds_ret [OF zero, of pf leds] run
    have r: "r = attach_ret pf dev"
      using True clear by (auto simp add: attach_ret_def)
    have "log (spi s') = log dev @ butlast (attach_events pf) @ (if ?ok then [Create_file] else [])"
      using res logS by (auto split: if_splits)
    then have "new_events dev (Some (s', leds)) =
        butlast (attach_events pf) @ (if ?ok then [Create_file] else [])"
      by (simp add: new_events_def)
    also have "\<dots> = attach_steps pf dev"
      using True clear
      by (auto simp add: attach_steps_def butlast_attach_events tables_in_range_parts)
    finally have "new_events dev (Some (s', leds)) = attach_steps pf dev" .
    then show ?thesis
      using unf clear run r by auto
  qed
qed

lemma file_after_tables:
  "Create_file \<in> set (attach_steps pf dev) \<Longrightarrow> tables_in_range pf"
  by (auto simp add: attach_steps_def led_events_def tables_in_range_parts split: if_splits)

lemma leds_whatever_tables:
  "alloc_ok pf \<Longrightarrow> clear_ret dev = 0 \<Longrightarrow> leds_class pf \<Longrightarrow>
     set (led_events (children pf)) \<subseteq> set (attach_steps pf dev)"
  by (auto simp add: attach_steps_def)

text \<open>
  C8, as amended. Attach runs exactly the steps of \<open>attach_steps\<close> and returns
  \<open>attach_ret\<close>: the settle delay, the clearing write (whose result is the one check of
  the bus), mode selection, display enable, the registration of an LED for every child
  node with coordinates in range, then the count, the reading and the check of the grid
  table and of the segment table, then the creation of the text attribute; it stops at
  the first of these that fails, with that step's error. So the text attribute is created
  only when the tables are in range, and the LEDs are registered whatever the tables
  hold, before they are read.
\<close>

theorem attach_order:
  "\<exists>st. tm1628_spi_probe pf dev = Some (attach_ret pf dev, st) \<and>
     new_events dev st = attach_steps pf dev \<and>
     (Create_file \<in> set (new_events dev st) \<longrightarrow> tables_in_range pf) \<and>
     (alloc_ok pf \<and> clear_ret dev = 0 \<and> leds_class pf \<longrightarrow>
        set (led_events (children pf)) \<subseteq> set (new_events dev st))"
proof -
  from probe_steps [of pf dev] obtain st where
    run: "tm1628_spi_probe pf dev = Some (attach_ret pf dev, st)"
    and ev: "new_events dev st = attach_steps pf dev"
    by blast
  have "Create_file \<in> set (new_events dev st) \<longrightarrow> tables_in_range pf"
    using file_after_tables [of pf dev] by (simp add: ev)
  moreover have "alloc_ok pf \<and> clear_ret dev = 0 \<and> leds_class pf \<longrightarrow>
      set (led_events (children pf)) \<subseteq> set (new_events dev st)"
    using leds_whatever_tables [of pf dev] by (simp add: ev)
  ultimately show ?thesis using run ev by blast
qed

theorem attach_order_witness:
  "tables_in_range pf_demo \<and>
   (\<exists>st. tm1628_spi_probe pf_demo dev_demo = Some (0, st) \<and>
      new_events dev_demo st =
        [Msleep 200, Spi_write [0xC0],
         Spi_sync_transfer [Some [0x40], Some [0, 0, 0, 0, 0, 0, 0, 0, 0, 0, 0, 0, 0, 0]],
         Spi_write [0x02], Spi_write [0x8F], Led_register 2 3, Create_file]) \<and>
   \<not> tables_in_range pf_bad_entry \<and>
   alloc_ok pf_bad_entry \<and> clear_ret dev_demo = 0 \<and> leds_class pf_bad_entry \<and>
   led_events (children pf_bad_entry) = [Led_register 2 3] \<and>
   (\<exists>st. tm1628_spi_probe pf_bad_entry dev_demo = Some (- EINVAL, st) \<and>
      new_events dev_demo st =
        [Msleep 200, Spi_write [0xC0],
         Spi_sync_transfer [Some [0x40], Some [0, 0, 0, 0, 0, 0, 0, 0, 0, 0, 0, 0, 0, 0]],
         Spi_write [0x02], Spi_write [0x8F], Led_register 2 3])"
proof -
  have r14: "replicate 14 (0 :: u8) = [0, 0, 0, 0, 0, 0, 0, 0, 0, 0, 0, 0, 0, 0]"
    by (simp add: numeral_eq_Suc)
  have cmds: "TM1628_CMD_SET_ADDRESS = 0xC0" "TM1628_CMD_DATA OR TM1628_DATA_WRITE_DATA = 0x40"
      "TM1628_CMD_DISPLAY_MODE OR TM1628_DISPLAY_MODE_6_12 = 0x02"
      "(TM1628_CMD_DISPLAY_CTRL OR TM1628_BRIGHTNESS_MAX) OR TM1628_DISPLAY_CTRL_DISPLAY_ON = 0x8F"
    by (simp_all add: TM1628_CMD_SET_ADDRESS_def TM1628_CMD_DATA_def TM1628_DATA_WRITE_DATA_def
        TM1628_CMD_DISPLAY_MODE_def TM1628_DISPLAY_MODE_6_12_def TM1628_CMD_DISPLAY_CTRL_def
        TM1628_BRIGHTNESS_MAX_def TM1628_DISPLAY_CTRL_DISPLAY_ON_def)
  have leds: "led_events (children pf_demo) = [Led_register 2 3]"
      "led_events (children pf_bad_entry) = [Led_register 2 3]"
    by (simp_all add: led_events_def child_in_range_def pf_demo_def pf_bad_entry_def
        MAX_GRID_SIZE_def MAX_SEGMENT_NUM_def)
  have good: "attach_ret pf_demo dev_demo = 0 \<and> attach_steps pf_demo dev_demo =
     [Msleep 200, Spi_write [0xC0],
      Spi_sync_transfer [Some [0x40], Some [0, 0, 0, 0, 0, 0, 0, 0, 0, 0, 0, 0, 0, 0]],
      Spi_write [0x02], Spi_write [0x8F], Led_register 2 3, Create_file]"
    by (simp add: attach_ret_def attach_steps_def clear_ret_def grid_count_in_range_def
        grid_table_in_range_def segment_table_in_range_def leds cmds r14)
      (simp add: pf_demo_def dev_demo_def MAX_GRID_SIZE_def MAX_SEGMENT_NUM_def in_range_def r14)
  have bad: "attach_ret pf_bad_entry dev_demo = - EINVAL \<and> attach_steps pf_bad_entry dev_demo =
     [Msleep 200, Spi_write [0xC0],
      Spi_sync_transfer [Some [0x40], Some [0, 0, 0, 0, 0, 0, 0, 0, 0, 0, 0, 0, 0, 0]],
      Spi_write [0x02], Spi_write [0x8F], Led_register 2 3]"
    by (simp add: attach_ret_def attach_steps_def clear_ret_def grid_count_in_range_def
        grid_table_in_range_def segment_table_in_range_def leds cmds r14)
      (simp add: pf_bad_entry_def pf_demo_def dev_demo_def MAX_GRID_SIZE_def MAX_SEGMENT_NUM_def
        in_range_def r14)
  have hyp: "alloc_ok pf_bad_entry \<and> clear_ret dev_demo = 0 \<and> leds_class pf_bad_entry"
    by (simp add: pf_bad_entry_def pf_demo_def dev_demo_def clear_ret_def)
  from attach_order [of pf_demo dev_demo] obtain st where
    a: "tm1628_spi_probe pf_demo dev_demo = Some (attach_ret pf_demo dev_demo, st)"
       "new_events dev_demo st = attach_steps pf_demo dev_demo"
       "Create_file \<in> set (new_events dev_demo st) \<longrightarrow> tables_in_range pf_demo"
    by blast
  from a(2,3) good have t: "tables_in_range pf_demo" by simp
  from attach_order [of pf_bad_entry dev_demo] obtain st' where
    b: "tm1628_spi_probe pf_bad_entry dev_demo = Some (attach_ret pf_bad_entry dev_demo, st')"
       "new_events dev_demo st' = attach_steps pf_bad_entry dev_demo"
       "Create_file \<in> set (new_events dev_demo st') \<longrightarrow> tables_in_range pf_bad_entry"
    by blast
  have nt: "\<not> tables_in_range pf_bad_entry"
    by (simp add: tables_in_range_def pf_bad_entry_def pf_demo_def in_range_def MAX_GRID_SIZE_def)
  from a good have "\<exists>st. tm1628_spi_probe pf_demo dev_demo = Some (0, st) \<and>
      new_events dev_demo st =
        [Msleep 200, Spi_write [0xC0],
         Spi_sync_transfer [Some [0x40], Some [0, 0, 0, 0, 0, 0, 0, 0, 0, 0, 0, 0, 0, 0]],
         Spi_write [0x02], Spi_write [0x8F], Led_register 2 3, Create_file]"
    by auto
  moreover from b bad have "\<exists>st. tm1628_spi_probe pf_bad_entry dev_demo = Some (- EINVAL, st) \<and>
      new_events dev_demo st =
        [Msleep 200, Spi_write [0xC0],
         Spi_sync_transfer [Some [0x40], Some [0, 0, 0, 0, 0, 0, 0, 0, 0, 0, 0, 0, 0, 0]],
         Spi_write [0x02], Spi_write [0x8F], Led_register 2 3]"
    by auto
  ultimately show ?thesis using t nt hyp leds(2) by blast
qed

text \<open>
  C8 as stated fails for the LED outputs: with a valid child node and an empty \<open>grid\<close>
  property, the LED is registered and attach then fails on the grid count.
\<close>

theorem attach_registers_led_before_tables:
  "\<not> tables_in_range pf_no_grid \<and>
   tm1628_spi_probe pf_no_grid dev_demo =
     Some (- EINVAL, Some (\<lparr>spi = \<lparr>log = [Msleep 200, Spi_write [0xC0],
                        Spi_sync_transfer [Some [0x40], Some [0, 0, 0, 0, 0, 0, 0, 0, 0, 0, 0, 0, 0, 0]],
                        Spi_write [0x02], Spi_write [0x8F], Led_register 2 3],
                      replies = []\<rparr>,
               data = [0, 0, 0, 0, 0, 0, 0],
               text_arr = [NUL, NUL, NUL, NUL, NUL, NUL, NUL, NUL],
               segment_mapping = [0, 0, 0, 0, 0, 0, 0],
               grid = [0, 0, 0, 0, 0, 0, 0], grid_size = 0\<rparr>,
             [\<lparr>led_grid = 2, led_seg = 3\<rparr>]))"
  by (simp add: probe_defs run_defs pf_no_grid_def pf_demo_def dev_demo_def tables_in_range_def)

end
